theory Spec2Isabelle
  imports Complex_Main "HOL-Library.Sublist"
begin

section \<open>Data model (src/types/index.ts)\<close>

text \<open>
  The interfaces of \<^verbatim>\<open>types/index.ts\<close> become records.  An optional field
  (\<^verbatim>\<open>svgPath?: string\<close>) is an \<open>option\<close>.  The field \<^verbatim>\<open>id\<close> is called
  \<open>seg_id\<close> and \<^verbatim>\<open>mask\<close> is called \<open>seg_mask\<close>, because \<open>id\<close> and \<open>mask\<close> are
  constants of HOL; the fields \<^verbatim>\<open>x\<close>, \<^verbatim>\<open>y\<close> get a prefix so that \<open>x\<close> and \<open>y\<close>
  stay usable as variables.

  A JavaScript \<^verbatim>\<open>number\<close> is modelled as a real number.  The conversion of a
  number to text inside a template literal is not fixed by this idealisation (the
  program prints IEEE doubles), so every function that prints a number takes the
  conversion as its first argument \<open>numStr\<close>.
\<close>

record Offset =
  off_x :: real
  off_y :: real

record Dimensions =
  width :: real
  height :: real

record ImageSegment =
  seg_id :: string
  name :: string
  seg_mask :: string
  svgPath :: "string option"
  ditherPattern :: "string option"
  patternOffset :: "Offset option"

datatype PointType = Include | Exclude

record ClickPoint =
  cp_x :: real
  cp_y :: real
  cp_type :: PointType

record SegmentationState =
  currentSegment :: "string option"
  segments :: "ImageSegment list"
  imageData :: "string option"
  imageDimensions :: "Dimensions option"

section \<open>JavaScript primitives used by the components\<close>

text \<open>Truthiness of an optional string: \<^verbatim>\<open>undefined\<close>, \<^verbatim>\<open>null\<close> and \<^verbatim>\<open>''\<close> are falsy.\<close>

definition truthy :: "string option \<Rightarrow> bool" where
  "truthy v = (case v of None \<Rightarrow> False | Some s \<Rightarrow> s \<noteq> [])"

text \<open>\<^verbatim>\<open>a || b\<close> on an optional string \<open>a\<close>.\<close>

definition orElse :: "string option \<Rightarrow> string \<Rightarrow> string" where
  "orElse v d = (case v of None \<Rightarrow> d | Some s \<Rightarrow> if s = [] then d else s)"

text \<open>\<^verbatim>\<open>Array.prototype.join\<close> on an array of strings.\<close>

fun join :: "string \<Rightarrow> string list \<Rightarrow> string" where
  "join sep [] = []"
| "join sep [s] = s"
| "join sep (s # t # ts) = s @ sep @ join sep (t # ts)"

text \<open>\<^verbatim>\<open>Math.round\<close>: the nearest integer, a tie going up.\<close>

definition Math_round :: "real \<Rightarrow> real" where
  "Math_round v = of_int \<lfloor>v + 1 / 2\<rfloor>"

text \<open>
  A concrete number conversion for the examples: the decimal numeral of an integer,
  which is what JavaScript prints for an integral number below \<open>10\<^sup>2\<^sup>1\<close> in magnitude.
  It is only ever applied to such numbers where an example shows its output.
\<close>

definition digitChar :: "nat \<Rightarrow> char" where
  "digitChar d = ''0123456789'' ! d"

fun natToString :: "nat \<Rightarrow> string" where
  "natToString n =
     (if n < 10 then [digitChar n] else natToString (n div 10) @ [digitChar (n mod 10)])"

declare natToString.simps [simp del]

definition intToString :: "int \<Rightarrow> string" where
  "intToString i = (if i < 0 then CHR ''-'' # natToString (nat (- i)) else natToString (nat i))"

definition decimal :: "real \<Rightarrow> string" where
  "decimal v = intToString \<lfloor>v\<rfloor>"

text \<open>Number of (possibly overlapping) occurrences of a text in a text.\<close>

fun occurrences :: "string \<Rightarrow> string \<Rightarrow> nat" where
  "occurrences pat [] = (if pat = [] then 1 else 0)"
| "occurrences pat (c # cs) = (if prefix pat (c # cs) then 1 else 0) + occurrences pat cs"

section \<open>Polygon capture (src/components/SegmentationCanvas.tsx)\<close>

subsection \<open>generateSVGPathFromPolygon\<close>

text \<open>
  The \<^verbatim>\<open>forEach\<close> loop with its index and the accumulated \<^verbatim>\<open>path\<close>: the first point
  is appended as a move-to, every later one as a line-to.
\<close>

fun pathLoop :: "(real \<Rightarrow> string) \<Rightarrow> ClickPoint list \<Rightarrow> nat \<Rightarrow> string \<Rightarrow> string" where
  "pathLoop numStr [] index path = path"
| "pathLoop numStr (point # points) index path =
     pathLoop numStr points (index + 1)
       (if index = 0
        then path @ ''M'' @ numStr (cp_x point) @ '','' @ numStr (cp_y point)
        else path @ '' L'' @ numStr (cp_x point) @ '','' @ numStr (cp_y point))"

definition generateSVGPathFromPolygon :: "(real \<Rightarrow> string) \<Rightarrow> ClickPoint list \<Rightarrow> string" where
  "generateSVGPathFromPolygon numStr points =
     (if length points < 3 then ''M0,0 Z''
      else pathLoop numStr points 0 [] @ '' Z'')"

subsection \<open>The browser as seen by the components\<close>

text \<open>
  What the components read from the browser is collected in one record, so that
  every handler is a function of its arguments:
  \<^item> \<open>numberToString\<close>: how a number prints inside a template literal;
  \<^item> \<open>overlayCanvas\<close>: \<^verbatim>\<open>overlayCanvasRef.current\<close> with its bounding rectangle on
    screen and the size of its pixel grid (\<open>None\<close> while the ref is null);
  \<^item> \<open>polygonMask\<close>: \<^verbatim>\<open>canvasRef.current\<close>, as the function that fills a polygon on a
    canvas of its size and returns \<^verbatim>\<open>toDataURL('image/png')\<close> (\<open>None\<close> while the ref is
    null);
  \<^item> \<open>pathFromMask\<close>: what awaiting \<^verbatim>\<open>generatePathFromMask(mask)\<close> resolves to; it
    decodes the mask image on a canvas, so its result belongs to the browser.
\<close>

record Overlay =
  rect_left :: real
  rect_top :: real
  rect_width :: real
  rect_height :: real
  canvas_width :: real
  canvas_height :: real

record Browser =
  numberToString :: "real \<Rightarrow> string"
  overlayCanvas :: "Overlay option"
  polygonMask :: "(ClickPoint list \<Rightarrow> string) option"
  pathFromMask :: "string \<Rightarrow> string"

subsection \<open>Component state and handlers\<close>

text \<open>
  The component's own state is \<open>anchorPoints\<close> and \<open>isComplete\<close>.  The prop
  \<^verbatim>\<open>currentSegment\<close> is the argument \<open>current\<close> of every handler.  The prop \<^verbatim>\<open>onSegmentComplete\<close> is a
  callback: \<open>completed\<close> records the segments it has been called with, oldest first.
\<close>

record CanvasState =
  anchorPoints :: "ClickPoint list"
  isComplete :: bool
  completed :: "ImageSegment list"

definition generateMaskFromPolygon :: "Browser \<Rightarrow> ClickPoint list \<Rightarrow> string" where
  "generateMaskFromPolygon env points =
     (case polygonMask env of None \<Rightarrow> [] | Some fillPolygon \<Rightarrow> fillPolygon points)"

text \<open>\<^verbatim>\<open>toUpperCase\<close> on one character, for the ASCII letters the segment ids are made of.\<close>

definition toUpperCase :: "char \<Rightarrow> char" where
  "toUpperCase c =
     (case map_of (zip ''abcdefghijklmnopqrstuvwxyz'' ''ABCDEFGHIJKLMNOPQRSTUVWXYZ'') c of
        None \<Rightarrow> c | Some u \<Rightarrow> u)"

text \<open>\<^verbatim>\<open>s.charAt(0).toUpperCase() + s.slice(1)\<close>\<close>

definition capitalize :: "string \<Rightarrow> string" where
  "capitalize s = (case s of [] \<Rightarrow> [] | c # cs \<Rightarrow> toUpperCase c # cs)"

text \<open>
  Past its guard \<^verbatim>\<open>currentSegment\<close> is a non-empty string, which is what \<open>the\<close> reads.
\<close>

definition generateSegmentFromPolygon ::
  "Browser \<Rightarrow> string option \<Rightarrow> CanvasState \<Rightarrow> CanvasState" where
  "generateSegmentFromPolygon env current st =
     (if \<not> truthy current \<or> length (anchorPoints st) < 3 then st
      else
        let mask = generateMaskFromPolygon env (anchorPoints st);
            path = generateSVGPathFromPolygon (numberToString env) (anchorPoints st);
            segment = \<lparr> seg_id = the current,
                        name = capitalize (the current),
                        seg_mask = mask,
                        svgPath = Some path,
                        ditherPattern = None,
                        patternOffset = None \<rparr>
        in st \<lparr> completed := completed st @ [segment], anchorPoints := [], isComplete := False \<rparr>)"

definition handleDoubleClick ::
  "Browser \<Rightarrow> string option \<Rightarrow> CanvasState \<Rightarrow> CanvasState" where
  "handleDoubleClick env current st =
     (if \<not> truthy current \<or> length (anchorPoints st) < 3 then st
      else generateSegmentFromPolygon env current (st \<lparr> isComplete := True \<rparr>))"

text \<open>
  A click carries the pointer position \<open>(clientX, clientY)\<close>; it is mapped to the
  pixel grid of the overlay canvas before anything else is done with it.  (The bounding
  rectangle of a canvas that is shown has a positive width and height; for a width or
  height of 0 the quotient below is 0 in HOL, not the program's \<^verbatim>\<open>Infinity\<close> or \<^verbatim>\<open>NaN\<close>.)
\<close>

definition handleCanvasClick ::
  "Browser \<Rightarrow> string option \<Rightarrow> real \<times> real \<Rightarrow> CanvasState \<Rightarrow> CanvasState" where
  "handleCanvasClick env current e st =
     (if \<not> truthy current \<or> isComplete st then st
      else case overlayCanvas env of
        None \<Rightarrow> st
      | Some rect \<Rightarrow>
          let x = ((fst e - rect_left rect) / rect_width rect) * canvas_width rect;
              y = ((snd e - rect_top rect) / rect_height rect) * canvas_height rect
          in if length (anchorPoints st) \<ge> 3 \<and>
                (let firstPoint = anchorPoints st ! 0;
                     distance = sqrt ((x - cp_x firstPoint)\<^sup>2 + (y - cp_y firstPoint)\<^sup>2)
                 in distance < 15)
             then generateSegmentFromPolygon env current (st \<lparr> isComplete := True \<rparr>)
             else st \<lparr> anchorPoints :=
                        anchorPoints st @ [\<lparr> cp_x = x, cp_y = y, cp_type = Include \<rparr>] \<rparr>)"

text \<open>The effect that runs when the prop \<^verbatim>\<open>currentSegment\<close> changes.\<close>

definition resetOnSegmentChange :: "CanvasState \<Rightarrow> CanvasState" where
  "resetOnSegmentChange st = st \<lparr> anchorPoints := [], isComplete := False \<rparr>"

text \<open>
  A run of the component: clicks, double clicks and changes of the prop
  \<^verbatim>\<open>currentSegment\<close>, from the mounted component with no segment type selected.  The
  effect runs only when the prop takes another value.
\<close>

datatype CanvasEvent = Click "real \<times> real" | DoubleClick | SegmentChange "string option"

fun canvasStep ::
  "Browser \<Rightarrow> string option \<times> CanvasState \<Rightarrow> CanvasEvent \<Rightarrow> string option \<times> CanvasState" where
  "canvasStep env (current, st) (Click e) = (current, handleCanvasClick env current e st)"
| "canvasStep env (current, st) DoubleClick = (current, handleDoubleClick env current st)"
| "canvasStep env (current, st) (SegmentChange c) =
     (c, if c = current then st else resetOnSegmentChange st)"

definition initialCanvas :: "string option \<times> CanvasState" where
  "initialCanvas = (None, \<lparr> anchorPoints = [], isComplete = False, completed = [] \<rparr>)"

section \<open>The segment collection (src/App.tsx)\<close>

definition initialState :: SegmentationState where
  "initialState =
     \<lparr> currentSegment = None, segments = [], imageData = None, imageDimensions = None \<rparr>"

definition handleImageUpload :: "string \<Rightarrow> Dimensions \<Rightarrow> SegmentationState \<Rightarrow> SegmentationState" where
  "handleImageUpload data dimensions prev =
     prev \<lparr> imageData := Some data, imageDimensions := Some dimensions,
            segments := [], currentSegment := None \<rparr>"

definition handleSegmentSelect :: "string \<Rightarrow> SegmentationState \<Rightarrow> SegmentationState" where
  "handleSegmentSelect segmentType prev = prev \<lparr> currentSegment := Some segmentType \<rparr>"

definition handleSegmentComplete :: "ImageSegment \<Rightarrow> SegmentationState \<Rightarrow> SegmentationState" where
  "handleSegmentComplete segment prev =
     prev \<lparr> segments := filter (\<lambda>s. seg_id s \<noteq> seg_id segment) (segments prev) @ [segment] \<rparr>"

definition handleDitherPatternChange ::
  "string \<Rightarrow> string \<Rightarrow> SegmentationState \<Rightarrow> SegmentationState" where
  "handleDitherPatternChange segmentId patternId prev =
     prev \<lparr> segments :=
       map (\<lambda>segment. if seg_id segment = segmentId
                       then segment \<lparr> ditherPattern := Some patternId \<rparr> else segment)
         (segments prev) \<rparr>"

definition handlePatternOffsetChange ::
  "string \<Rightarrow> Offset \<Rightarrow> SegmentationState \<Rightarrow> SegmentationState" where
  "handlePatternOffsetChange segmentId offset prev =
     prev \<lparr> segments :=
       map (\<lambda>segment. if seg_id segment = segmentId
                       then segment \<lparr> patternOffset := Some offset \<rparr> else segment)
         (segments prev) \<rparr>"

text \<open>Everything that writes the segmentation state, as one step function.\<close>

datatype AppEvent =
    ImageUpload string Dimensions
  | SegmentSelect string
  | SegmentComplete ImageSegment
  | DitherPatternChange string string
  | PatternOffsetChange string Offset
  | StartOver

fun appStep :: "SegmentationState \<Rightarrow> AppEvent \<Rightarrow> SegmentationState" where
  "appStep st (ImageUpload data dimensions) = handleImageUpload data dimensions st"
| "appStep st (SegmentSelect segmentType) = handleSegmentSelect segmentType st"
| "appStep st (SegmentComplete segment) = handleSegmentComplete segment st"
| "appStep st (DitherPatternChange segmentId patternId) =
     handleDitherPatternChange segmentId patternId st"
| "appStep st (PatternOffsetChange segmentId offset) =
     handlePatternOffsetChange segmentId offset st"
| "appStep st StartOver = initialState"

section \<open>SVG export (src/components/ExportControls.tsx)\<close>

text \<open>
  The model is of the component as it stands with pattern offsets: the tile
  definitions are generated by \<^verbatim>\<open>generatePatternDef\<close>, one call per segment that has a
  pattern.  (The file also holds the component's first revision, which looked the
  definitions up in a fixed table, once per pattern id collected in a \<^verbatim>\<open>Set\<close>, as the
  editor of uploaded documents still does.)
\<close>

subsection \<open>Pattern tiles\<close>

text \<open>
  \<^verbatim>\<open>generatePatternDef\<close> of the export component.  The \<^verbatim>\<open>switch\<close> on the pattern id is
  the chain of tests below, in the source's order; each branch is the source's template
  literal, line by line.
\<close>

definition generatePatternDef :: "(real \<Rightarrow> string) \<Rightarrow> string \<Rightarrow> Offset \<Rightarrow> Dimensions \<Rightarrow> string" where
  \<open>generatePatternDef numStr patternId offset dims =
     (let offsetX = off_x offset;
          offsetY = off_y offset;
          basePatternSize = 128;
          maxImageDimension = max (width dims) (height dims);
          scaleFactor = min (maxImageDimension / 400) 3;
          patternSize = Math_round (basePatternSize * scaleFactor)
      in
        if patternId = ''dithered_marble_1'' then
          ''\<newline>'' @
          ''        <pattern id="'' @ patternId @ ''" patternUnits="userSpaceOnUse" width="'' @ numStr patternSize @ ''" height="'' @ numStr patternSize @ ''" \<newline>'' @
          ''                 patternTransform="translate('' @ numStr offsetX @ '','' @ numStr offsetY @ '')">\<newline>'' @
          ''          <image href="/assets/dithered_marble_1.png" width="'' @ numStr patternSize @ ''" height="'' @ numStr patternSize @ ''" preserveAspectRatio="xMidYMid"/>\<newline>'' @
          ''        </pattern>\<newline>'' @
          ''      ''
        else if patternId = ''dithered_marble_2'' then
          ''\<newline>'' @
          ''        <pattern id="'' @ patternId @ ''" patternUnits="userSpaceOnUse" width="'' @ numStr patternSize @ ''" height="'' @ numStr patternSize @ ''" \<newline>'' @
          ''                 patternTransform="translate('' @ numStr offsetX @ '','' @ numStr offsetY @ '')">\<newline>'' @
          ''          <image href="/assets/dithered_marble_2.png" width="'' @ numStr patternSize @ ''" height="'' @ numStr patternSize @ ''" preserveAspectRatio="xMidYMid"/>\<newline>'' @
          ''        </pattern>\<newline>'' @
          ''      ''
        else if patternId = ''dithered_nest'' then
          ''\<newline>'' @
          ''        <pattern id="'' @ patternId @ ''" patternUnits="userSpaceOnUse" width="'' @ numStr patternSize @ ''" height="'' @ numStr patternSize @ ''" \<newline>'' @
          ''                 patternTransform="translate('' @ numStr offsetX @ '','' @ numStr offsetY @ '')">\<newline>'' @
          ''          <image href="/assets/dithered_nest.png" width="'' @ numStr patternSize @ ''" height="'' @ numStr patternSize @ ''" preserveAspectRatio="xMidYMid"/>\<newline>'' @
          ''        </pattern>\<newline>'' @
          ''      ''
        else if patternId = ''dots'' then
          (let dotSize = max 12 (min 48 (min (width dims) (height dims) / 15)) in
            ''\<newline>'' @
            ''        <pattern id="'' @ patternId @ ''" patternUnits="userSpaceOnUse" width="'' @ numStr dotSize @ ''" height="'' @ numStr dotSize @ ''" \<newline>'' @
            ''                 patternTransform="translate('' @ numStr offsetX @ '','' @ numStr offsetY @ '')">\<newline>'' @
            ''          <circle cx="'' @ numStr (dotSize / 2) @ ''" cy="'' @ numStr (dotSize / 2) @ ''" r="'' @ numStr (dotSize / 8) @ ''" fill="currentColor" opacity="0.8"/>\<newline>'' @
            ''        </pattern>\<newline>'' @
            ''      '')
        else if patternId = ''solid'' then
          ''\<newline>'' @
          ''        <pattern id="'' @ patternId @ ''" patternUnits="userSpaceOnUse" width="1" height="1" \<newline>'' @
          ''                 patternTransform="translate('' @ numStr offsetX @ '','' @ numStr offsetY @ '')">\<newline>'' @
          ''          <rect width="1" height="1" fill="currentColor"/>\<newline>'' @
          ''        </pattern>\<newline>'' @
          ''      ''
        else
          (let defaultSize = max 12 (min 48 (min (width dims) (height dims) / 15)) in
            ''\<newline>'' @
            ''        <pattern id="'' @ patternId @ ''" patternUnits="userSpaceOnUse" width="'' @ numStr defaultSize @ ''" height="'' @ numStr defaultSize @ ''" \<newline>'' @
            ''                 patternTransform="translate('' @ numStr offsetX @ '','' @ numStr offsetY @ '')">\<newline>'' @
            ''          <rect width="'' @ numStr defaultSize @ ''" height="'' @ numStr defaultSize @ ''" fill="currentColor" opacity="0.3"/>\<newline>'' @
            ''        </pattern>\<newline>'' @
            ''      ''))\<close>

text \<open>
  \<^verbatim>\<open>generatePatternDef\<close> of the uploaded-document editor (SVGPatternEditor): the same
  switch with a larger base tile for the image-backed patterns.
\<close>

definition generatePatternDef_editor :: "(real \<Rightarrow> string) \<Rightarrow> string \<Rightarrow> Offset \<Rightarrow> Dimensions \<Rightarrow> string" where
  \<open>generatePatternDef_editor numStr patternId offset dims =
     (let offsetX = off_x offset;
          offsetY = off_y offset;
          basePatternSize = 256;
          maxSvgDimension = max (width dims) (height dims);
          scaleFactor = min (maxSvgDimension / 300) 4;
          patternSize = Math_round (basePatternSize * scaleFactor)
      in
        if patternId = ''dithered_marble_1'' then
          ''\<newline>'' @
          ''        <pattern id="'' @ patternId @ ''" patternUnits="userSpaceOnUse" width="'' @ numStr patternSize @ ''" height="'' @ numStr patternSize @ ''" \<newline>'' @
          ''                 patternTransform="translate('' @ numStr offsetX @ '','' @ numStr offsetY @ '')" patternContentUnits="userSpaceOnUse">\<newline>'' @
          ''          <image href="/assets/dithered_marble_1.png" width="'' @ numStr patternSize @ ''" height="'' @ numStr patternSize @ ''" preserveAspectRatio="none"/>\<newline>'' @
          ''        </pattern>\<newline>'' @
          ''      ''
        else if patternId = ''dithered_marble_2'' then
          ''\<newline>'' @
          ''        <pattern id="'' @ patternId @ ''" patternUnits="userSpaceOnUse" width="'' @ numStr patternSize @ ''" height="'' @ numStr patternSize @ ''" \<newline>'' @
          ''                 patternTransform="translate('' @ numStr offsetX @ '','' @ numStr offsetY @ '')" patternContentUnits="userSpaceOnUse">\<newline>'' @
          ''          <image href="/assets/dithered_marble_2.png" width="'' @ numStr patternSize @ ''" height="'' @ numStr patternSize @ ''" preserveAspectRatio="none"/>\<newline>'' @
          ''        </pattern>\<newline>'' @
          ''      ''
        else if patternId = ''dithered_nest'' then
          ''\<newline>'' @
          ''        <pattern id="'' @ patternId @ ''" patternUnits="userSpaceOnUse" width="'' @ numStr patternSize @ ''" height="'' @ numStr patternSize @ ''" \<newline>'' @
          ''                 patternTransform="translate('' @ numStr offsetX @ '','' @ numStr offsetY @ '')" patternContentUnits="userSpaceOnUse">\<newline>'' @
          ''          <image href="/assets/dithered_nest.png" width="'' @ numStr patternSize @ ''" height="'' @ numStr patternSize @ ''" preserveAspectRatio="none"/>\<newline>'' @
          ''        </pattern>\<newline>'' @
          ''      ''
        else if patternId = ''dots'' then
          (let dotSize = max 12 (min 48 (min (width dims) (height dims) / 15)) in
            ''\<newline>'' @
            ''        <pattern id="'' @ patternId @ ''" patternUnits="userSpaceOnUse" width="'' @ numStr dotSize @ ''" height="'' @ numStr dotSize @ ''" \<newline>'' @
            ''                 patternTransform="translate('' @ numStr offsetX @ '','' @ numStr offsetY @ '')">\<newline>'' @
            ''          <circle cx="'' @ numStr (dotSize / 2) @ ''" cy="'' @ numStr (dotSize / 2) @ ''" r="'' @ numStr (dotSize / 8) @ ''" fill="currentColor" opacity="0.8"/>\<newline>'' @
            ''        </pattern>\<newline>'' @
            ''      '')
        else if patternId = ''solid'' then
          ''\<newline>'' @
          ''        <pattern id="'' @ patternId @ ''" patternUnits="userSpaceOnUse" width="1" height="1" \<newline>'' @
          ''                 patternTransform="translate('' @ numStr offsetX @ '','' @ numStr offsetY @ '')">\<newline>'' @
          ''          <rect width="1" height="1" fill="currentColor"/>\<newline>'' @
          ''        </pattern>\<newline>'' @
          ''      ''
        else
          (let defaultSize = max 12 (min 48 (min (width dims) (height dims) / 15)) in
            ''\<newline>'' @
            ''        <pattern id="'' @ patternId @ ''" patternUnits="userSpaceOnUse" width="'' @ numStr defaultSize @ ''" height="'' @ numStr defaultSize @ ''" \<newline>'' @
            ''                 patternTransform="translate('' @ numStr offsetX @ '','' @ numStr offsetY @ '')">\<newline>'' @
            ''          <rect width="'' @ numStr defaultSize @ ''" height="'' @ numStr defaultSize @ ''" fill="currentColor" opacity="0.3"/>\<newline>'' @
            ''        </pattern>\<newline>'' @
            ''      ''))\<close>

subsection \<open>generateSVG\<close>

definition colors :: "(string \<times> string) list" where
  "colors =
     [(''hair'', ''#ff6b6b''), (''face'', ''#4ecdc4''), (''body'', ''#45b7d1''),
      (''arms'', ''#96ceb4''), (''legs'', ''#feca57''), (''accessories'', ''#ff9ff3''),
      (''background'', ''#a4b0be'')]"

text \<open>
  The colour table is looked up by the segment id, with a default for an id it does not
  hold.  The lookup is modelled on the keys the table itself declares.
\<close>

definition getSegmentColor :: "string \<Rightarrow> string" where
  "getSegmentColor segmentId = orElse (map_of colors segmentId) ''#888''"

text \<open>
  The array of tile definitions before it is joined: one entry for every segment of
  the list that has a pattern, in the order of the list.  (\<open>the\<close> is applied only to
  what the filter has let through.)
\<close>

definition patternDefList :: "(real \<Rightarrow> string) \<Rightarrow> Dimensions \<Rightarrow> ImageSegment list \<Rightarrow> string list" where
  "patternDefList numStr dims segs =
     map (\<lambda>segment.
            let patternId = the (ditherPattern segment);
                offset = (case patternOffset segment of
                            None \<Rightarrow> \<lparr> off_x = 0, off_y = 0 \<rparr> | Some off \<Rightarrow> off)
            in generatePatternDef numStr patternId offset dims)
       (filter (\<lambda>segment. truthy (ditherPattern segment)) segs)"

text \<open>The text one segment contributes: a colour group around one path.\<close>

definition segmentPath :: "Browser \<Rightarrow> ImageSegment \<Rightarrow> string" where
  \<open>segmentPath env segment =
     (let patternId = orElse (ditherPattern segment) ''solid'';
          color = getSegmentColor (seg_id segment);
          pathData = orElse (svgPath segment) (pathFromMask env (seg_mask segment))
      in
        ''\<newline>'' @
        ''          <g color="'' @ color @ ''">\<newline>'' @
        ''            <path \<newline>'' @
        ''              d="'' @ pathData @ ''" \<newline>'' @
        ''              fill="url(#'' @ patternId @ '')" \<newline>'' @
        ''              stroke="'' @ color @ ''" \<newline>'' @
        ''              stroke-width="2"\<newline>'' @
        ''              data-segment="'' @ seg_id segment @ ''"\<newline>'' @
        ''            />\<newline>'' @
        ''          </g>\<newline>'' @
        ''        '')\<close>

definition segmentPaths :: "Browser \<Rightarrow> ImageSegment list \<Rightarrow> bool \<Rightarrow> string list" where
  "segmentPaths env segs includeAll =
     map (segmentPath env)
       (filter (\<lambda>segment. includeAll \<or> truthy (ditherPattern segment)) segs)"

definition generateSVG :: "Browser \<Rightarrow> Dimensions \<Rightarrow> ImageSegment list \<Rightarrow> bool \<Rightarrow> string" where
  \<open>generateSVG env dims segs includeAll =
     (let numStr = numberToString env;
          svgWidth = width dims;
          svgHeight = height dims;
          patternDefs = join ''\<newline>'' (patternDefList numStr dims segs);
          segmentPathsString = join ''\<newline>'' (segmentPaths env segs includeAll)
      in
        ''\<newline>'' @
        ''      <svg width="'' @ numStr svgWidth @ ''" height="'' @ numStr svgHeight @ ''" viewBox="0 0 '' @ numStr svgWidth @ '' '' @ numStr svgHeight @ ''" xmlns="http://www.w3.org/2000/svg">\<newline>'' @
        ''        <defs>\<newline>'' @
        ''          '' @ patternDefs @ ''\<newline>'' @
        ''        </defs>\<newline>'' @
        ''        <rect width="100%" height="100%" fill="white"/>\<newline>'' @
        ''        '' @ segmentPathsString @ ''\<newline>'' @
        ''      </svg>\<newline>'' @
        ''    '')\<close>

text \<open>The texts handed to \<^verbatim>\<open>saveAs\<close> by the export buttons.\<close>

definition exportAllAsSVG :: "Browser \<Rightarrow> Dimensions \<Rightarrow> ImageSegment list \<Rightarrow> string" where
  "exportAllAsSVG env dims segs = generateSVG env dims segs True"

definition exportWithPatternsOnly :: "Browser \<Rightarrow> Dimensions \<Rightarrow> ImageSegment list \<Rightarrow> string" where
  "exportWithPatternsOnly env dims segs =
     (let segmentsWithPatterns = filter (\<lambda>segment. truthy (ditherPattern segment)) segs
      in generateSVG env dims segmentsWithPatterns False)"

section \<open>Notions used to state the properties\<close>

text \<open>
  ``\<open>v\<close> clamped to the interval \<open>[lo, hi]\<close>'', in the words of the specification.
\<close>

definition clampTo :: "real \<Rightarrow> real \<Rightarrow> real \<Rightarrow> real" where
  "clampTo lo hi v = (if v < lo then lo else if hi < v then hi else v)"

text \<open>
  The dot tile of side length \<open>side\<close>: a \<^verbatim>\<open>pattern\<close> element that is \<open>side\<close> wide and
  \<open>side\<close> high, holding one circle at its centre.
\<close>

definition dotTile :: "(real \<Rightarrow> string) \<Rightarrow> real \<Rightarrow> Offset \<Rightarrow> string" where
  \<open>dotTile numStr side offset =
     ''\<newline>'' @
     ''        <pattern id="dots" patternUnits="userSpaceOnUse" width="'' @ numStr side @ ''" height="'' @ numStr side @ ''" \<newline>'' @
     ''                 patternTransform="translate('' @ numStr (off_x offset) @ '','' @ numStr (off_y offset) @ '')">\<newline>'' @
     ''          <circle cx="'' @ numStr (side / 2) @ ''" cy="'' @ numStr (side / 2) @ ''" r="'' @ numStr (side / 8) @ ''" fill="currentColor" opacity="0.8"/>\<newline>'' @
     ''        </pattern>\<newline>'' @
     ''      ''\<close>

text \<open>
  A text is \<open>plain\<close> when it holds neither \<^verbatim>\<open><\<close> nor a double quote, so that it stays
  inside the attribute value it is printed into.  The counting properties of the
  exported text are stated for plain segment data: ids, pattern ids and path data
  are printed as they are, without escaping.  (What JavaScript prints for a number is
  plain: digits, a sign, a point, an exponent, \<^verbatim>\<open>Infinity\<close> or \<^verbatim>\<open>NaN\<close>.)
\<close>

definition plain :: "string \<Rightarrow> bool" where
  "plain s \<longleftrightarrow> CHR ''<'' \<notin> set s \<and> CHR 0x22 \<notin> set s"

definition plainNumbers :: "(real \<Rightarrow> string) \<Rightarrow> bool" where
  "plainNumbers numStr \<longleftrightarrow> (\<forall>v. plain (numStr v))"

definition plainSegment :: "Browser \<Rightarrow> ImageSegment \<Rightarrow> bool" where
  "plainSegment env s \<longleftrightarrow>
     plain (seg_id s) \<and> plain (orElse (ditherPattern s) ''solid'') \<and>
     plain (orElse (svgPath s) (pathFromMask env (seg_mask s)))"

definition plainInput :: "Browser \<Rightarrow> ImageSegment list \<Rightarrow> bool" where
  "plainInput env segs \<longleftrightarrow>
     plainNumbers (numberToString env) \<and> list_all (plainSegment env) segs"

text \<open>
  Where a click at the pointer position \<open>e\<close> lands on the pixel grid of the overlay
  canvas, and its distance from a point of that grid.
\<close>

definition clickPosition :: "Overlay \<Rightarrow> real \<times> real \<Rightarrow> real \<times> real" where
  "clickPosition rect e =
     (((fst e - rect_left rect) / rect_width rect) * canvas_width rect,
      ((snd e - rect_top rect) / rect_height rect) * canvas_height rect)"

definition distanceTo :: "ClickPoint \<Rightarrow> real \<times> real \<Rightarrow> real" where
  "distanceTo p xy = sqrt ((fst xy - cp_x p)\<^sup>2 + (snd xy - cp_y p)\<^sup>2)"

text \<open>
  The segment that finalizing the anchor points \<open>points\<close> of the segment type \<open>c\<close> hands
  to the callback.
\<close>

definition segmentOf :: "Browser \<Rightarrow> string \<Rightarrow> ClickPoint list \<Rightarrow> ImageSegment" where
  "segmentOf env c points =
     \<lparr> seg_id = c, name = capitalize c,
       seg_mask = generateMaskFromPolygon env points,
       svgPath = Some (generateSVGPathFromPolygon (numberToString env) points),
       ditherPattern = None, patternOffset = None \<rparr>"

text \<open>
  The states of a capture between two events: the completion flag is not set, and
  there are anchor points only while a segment type is selected.
\<close>

definition capturing :: "string option \<times> CanvasState \<Rightarrow> bool" where
  "capturing c \<longleftrightarrow>
     \<not> isComplete (snd c) \<and> (anchorPoints (snd c) = [] \<or> truthy (fst c))"

subsection \<open>Example data\<close>

text \<open>
  The three clicks of the component test ``should complete segment when enough points
  are added'', a browser whose overlay canvas is shown at its native size of 400 by 300
  pixels, and segments like the \<^verbatim>\<open>mockSegments\<close> of the export tests.
\<close>

definition examplePoints :: "ClickPoint list" where
  "examplePoints =
     [\<lparr> cp_x = 100, cp_y = 100, cp_type = Include \<rparr>,
      \<lparr> cp_x = 200, cp_y = 100, cp_type = Include \<rparr>,
      \<lparr> cp_x = 150, cp_y = 200, cp_type = Include \<rparr>]"

definition exampleBrowser :: Browser where
  "exampleBrowser =
     \<lparr> numberToString = decimal,
       overlayCanvas = Some \<lparr> rect_left = 0, rect_top = 0, rect_width = 400, rect_height = 300,
                              canvas_width = 400, canvas_height = 300 \<rparr>,
       polygonMask = Some (\<lambda>points. ''data:image/png;base64,mask''),
       pathFromMask = (\<lambda>m. ''M0,0 Z'') \<rparr>"

text \<open>
  Dimensions for which every number that the export prints is integral: the dot and
  default tiles have side 48.
\<close>

definition exampleDimensions :: Dimensions where
  "exampleDimensions = \<lparr> width = 960, height = 720 \<rparr>"

definition hair :: ImageSegment where
  "hair = \<lparr> seg_id = ''hair'', name = ''Hair'', seg_mask = ''data:image/png;base64,mockMaskData'',
            svgPath = Some ''M100,100 L200,100 L150,200 Z'', ditherPattern = Some ''dots'',
            patternOffset = None \<rparr>"

definition face :: ImageSegment where
  "face = \<lparr> seg_id = ''face'', name = ''Face'', seg_mask = ''data:image/png;base64,mockMaskData2'',
            svgPath = Some ''M10,10 L90,10 L50,80 Z'', ditherPattern = Some ''lines'',
            patternOffset = Some \<lparr> off_x = 3, off_y = 4 \<rparr> \<rparr>"

definition body :: ImageSegment where
  "body = \<lparr> seg_id = ''body'', name = ''Body'', seg_mask = ''data:image/png;base64,mockMaskData3'',
            svgPath = None, ditherPattern = None, patternOffset = None \<rparr>"

section \<open>Properties of the number conversion used in the examples\<close>

lemma digitChar_digit: "d < 10 \<Longrightarrow> digitChar d \<in> set ''0123456789''"
  unfolding digitChar_def by (rule nth_mem) simp

lemma natToString_digits: "set (natToString n) \<subseteq> set ''0123456789''"
proof (induction n rule: natToString.induct)
  case (1 n)
  show ?case
  proof (cases "n < 10")
    case True
    have "natToString n = [digitChar n]"
      using True by (subst natToString.simps) simp
    then show ?thesis using digitChar_digit[OF True] by simp
  next
    case False
    have m: "n mod 10 < 10" by simp
    have "natToString n = natToString (n div 10) @ [digitChar (n mod 10)]"
      using False by (subst natToString.simps) simp
    then show ?thesis using digitChar_digit[OF m] 1[OF False] by simp
  qed
qed

lemma intToString_chars: "set (intToString i) \<subseteq> insert (CHR ''-'') (set ''0123456789'')"
proof (cases "i < 0")
  case True
  then have "set (intToString i) = insert (CHR ''-'') (set (natToString (nat (- i))))"
    by (simp only: intToString_def if_True list.set)
  then show ?thesis using insert_mono[OF natToString_digits] by simp
next
  case False
  then have "intToString i = natToString (nat i)"
    by (simp only: intToString_def if_False)
  then show ?thesis using subset_insertI2[OF natToString_digits] by simp
qed

lemma decimal_avoids:
  "c \<notin> insert (CHR ''-'') (set ''0123456789'') \<Longrightarrow> c \<notin> set (decimal v)"
  using intToString_chars[of "\<lfloor>v\<rfloor>"] unfolding decimal_def by blast

lemma plainNumbers_decimal: "plainNumbers decimal"
  unfolding plainNumbers_def plain_def
  by (intro allI conjI decimal_avoids) simp_all

lemmas decimal_eval = decimal_def intToString_def natToString.simps digitChar_def

section \<open>The path of a polygon\<close>

lemma pathLoop_later:
  "0 < index \<Longrightarrow> pathLoop numStr points index path =
     path @ concat (map (\<lambda>p. '' L'' @ numStr (cp_x p) @ '','' @ numStr (cp_y p)) points)"
  by (induction points arbitrary: index path) simp_all

lemma count_L_lineTos:
  assumes "\<And>v. CHR ''L'' \<notin> set (numStr v)"
  shows "count_list (concat (map (\<lambda>p. '' L'' @ numStr (cp_x p) @ '','' @ numStr (cp_y p)) points))
           (CHR ''L'') = length points"
  using assms by (induction points) (simp_all add: count_list_0_iff)

text \<open>
  C2.  For a point list of at least three points, \<open>generateSVGPathFromPolygon\<close> returns
  the text \<^verbatim>\<open>M<x0>,<y0>\<close> for the first point, followed by one \<^verbatim>\<open> L<xi>,<yi>\<close> for every
  later point in the order of the list, followed by \<^verbatim>\<open> Z\<close>.  So the text begins with the
  move-to of the first point and ends with \<^verbatim>\<open>Z\<close>, and when no number prints with a
  letter \<^verbatim>\<open>L\<close> in it, the letter \<^verbatim>\<open>L\<close> stands in the text once per later point.
\<close>

theorem generateSVGPathFromPolygon_shape:
  assumes "3 \<le> length points"
  shows "generateSVGPathFromPolygon numStr points =
           ''M'' @ numStr (cp_x (hd points)) @ '','' @ numStr (cp_y (hd points)) @
           concat (map (\<lambda>p. '' L'' @ numStr (cp_x p) @ '','' @ numStr (cp_y p)) (tl points)) @ '' Z''
         \<and> prefix (''M'' @ numStr (cp_x (hd points)) @ '','' @ numStr (cp_y (hd points)))
              (generateSVGPathFromPolygon numStr points)
         \<and> suffix ''Z'' (generateSVGPathFromPolygon numStr points)
         \<and> ((\<forall>v. CHR ''L'' \<notin> set (numStr v)) \<longrightarrow>
              count_list (generateSVGPathFromPolygon numStr points) (CHR ''L'') = length points - 1)"
proof -
  from assms obtain p ps where points: "points = p # ps"
    by (cases points) auto
  have shape: "generateSVGPathFromPolygon numStr points =
           ''M'' @ numStr (cp_x p) @ '','' @ numStr (cp_y p) @
           concat (map (\<lambda>p. '' L'' @ numStr (cp_x p) @ '','' @ numStr (cp_y p)) ps) @ '' Z''"
    using assms unfolding generateSVGPathFromPolygon_def points
    by (simp add: pathLoop_later)
  have "suffix ''Z'' (generateSVGPathFromPolygon numStr points)"
    unfolding shape suffix_def by (rule exI[of _ "_ @ '' ''"]) simp
  moreover have "count_list (generateSVGPathFromPolygon numStr points) (CHR ''L'') = length points - 1"
    if "\<forall>v. CHR ''L'' \<notin> set (numStr v)"
    using that count_L_lineTos[of numStr ps] unfolding points shape[unfolded points]
    by (simp add: count_list_0_iff)
  ultimately show ?thesis
    using shape by (simp add: points)
qed

text \<open>The path of the three example points, with integral coordinates.\<close>

theorem generateSVGPathFromPolygon_shape_witness:
  "3 \<le> length examplePoints
   \<and> generateSVGPathFromPolygon decimal examplePoints = ''M100,100 L200,100 L150,200 Z''
   \<and> count_list (generateSVGPathFromPolygon decimal examplePoints) (CHR ''L'') = 2"
proof -
  have len: "3 \<le> length examplePoints" by (simp add: examplePoints_def)
  have noL: "\<forall>v. CHR ''L'' \<notin> set (decimal v)"
    by (intro allI decimal_avoids) simp
  from generateSVGPathFromPolygon_shape[OF len, of decimal] noL
  show ?thesis
    by (simp add: examplePoints_def decimal_eval)
qed

section \<open>Finalizing a polygon\<close>

lemma generateSegmentFromPolygon_few:
  "length (anchorPoints st) < 3 \<Longrightarrow> generateSegmentFromPolygon env current st = st"
  by (simp add: generateSegmentFromPolygon_def)

lemma handleDoubleClick_few:
  "length (anchorPoints st) < 3 \<Longrightarrow> handleDoubleClick env current st = st"
  by (simp add: handleDoubleClick_def)

lemma generateSegmentFromPolygon_enough:
  assumes "truthy current" "3 \<le> length (anchorPoints st)"
  shows "generateSegmentFromPolygon env current st =
           st \<lparr> completed := completed st @ [segmentOf env (the current) (anchorPoints st)],
                anchorPoints := [], isComplete := False \<rparr>"
  using assms by (simp add: generateSegmentFromPolygon_def segmentOf_def Let_def)

lemma handleDoubleClick_enough:
  assumes "truthy current" "3 \<le> length (anchorPoints st)"
  shows "handleDoubleClick env current st =
           st \<lparr> completed := completed st @ [segmentOf env (the current) (anchorPoints st)],
                anchorPoints := [], isComplete := False \<rparr>"
  using assms by (simp add: handleDoubleClick_def generateSegmentFromPolygon_enough)

lemma handleCanvasClick_few:
  assumes "length (anchorPoints st) < 3"
  shows "completed (handleCanvasClick env current e st) = completed st"
  using assms by (simp add: handleCanvasClick_def Let_def split: option.splits)

lemma handleCanvasClick_few_appends:
  assumes "length (anchorPoints st) < 3" "truthy current" "\<not> isComplete st"
    "overlayCanvas env = Some rect"
  shows "handleCanvasClick env current e st =
           st \<lparr> anchorPoints := anchorPoints st @
                  [\<lparr> cp_x = fst (clickPosition rect e), cp_y = snd (clickPosition rect e),
                     cp_type = Include \<rparr>] \<rparr>"
  using assms by (simp add: handleCanvasClick_def Let_def clickPosition_def)

lemma handleCanvasClick_close:
  assumes "truthy current" "\<not> isComplete st" "overlayCanvas env = Some rect"
    "3 \<le> length (anchorPoints st)"
    "distanceTo (anchorPoints st ! 0) (clickPosition rect e) < 15"
  shows "handleCanvasClick env current e st =
           st \<lparr> completed := completed st @ [segmentOf env (the current) (anchorPoints st)],
                anchorPoints := [], isComplete := False \<rparr>"
  using assms
  by (simp add: handleCanvasClick_def Let_def clickPosition_def distanceTo_def
      generateSegmentFromPolygon_enough)

text \<open>
  In every state that a run of the component reaches, the completion flag is not set,
  and there are anchor points only while a segment type is selected.  These are the
  states the properties below are about.
\<close>

lemma canvasStep_capturing:
  assumes "capturing c"
  shows "capturing (canvasStep env c ev)"
proof (cases c)
  case (Pair current st)
  with assms show ?thesis
    by (cases ev)
      (auto simp: capturing_def handleCanvasClick_def handleDoubleClick_def
        generateSegmentFromPolygon_def resetOnSegmentChange_def Let_def split: option.splits)
qed

lemma run_capturing: "capturing (foldl (canvasStep env) initialCanvas events)"
proof (induction events rule: rev_induct)
  case Nil
  show ?case by (simp add: capturing_def initialCanvas_def)
next
  case (snoc ev events)
  then show ?case by (simp add: canvasStep_capturing)
qed

text \<open>
  C5, as the code has it.  With fewer than three anchor points a double click, and the
  finalizing routine \<open>generateSegmentFromPolygon\<close> itself, change nothing: the callback
  is not invoked and the anchor points stay as they are.  A click with fewer than three
  anchor points never invokes the callback either, wherever it lands; but it is not a
  closing click: while a segment type is selected it is appended as one more anchor
  point.  With three or more anchor points and a segment type selected, a double click
  invokes the callback exactly once, with the segment made from the anchor points, and
  clears them.
\<close>

theorem finalize_needs_three_points:
  "(length (anchorPoints st) < 3 \<longrightarrow>
      handleDoubleClick env current st = st
    \<and> generateSegmentFromPolygon env current st = st
    \<and> completed (handleCanvasClick env current e st) = completed st)
   \<and> (length (anchorPoints st) < 3 \<and> truthy current \<and> \<not> isComplete st
        \<and> overlayCanvas env = Some rect \<longrightarrow>
      handleCanvasClick env current e st =
        st \<lparr> anchorPoints := anchorPoints st @
               [\<lparr> cp_x = fst (clickPosition rect e), cp_y = snd (clickPosition rect e),
                  cp_type = Include \<rparr>] \<rparr>)
   \<and> (3 \<le> length (anchorPoints st) \<and> truthy current \<longrightarrow>
      handleDoubleClick env current st =
        st \<lparr> completed := completed st @ [segmentOf env (the current) (anchorPoints st)],
             anchorPoints := [], isComplete := False \<rparr>
    \<and> length (completed (handleDoubleClick env current st)) = length (completed st) + 1)"
  by (simp add: generateSegmentFromPolygon_few handleDoubleClick_few handleCanvasClick_few
      handleCanvasClick_few_appends handleDoubleClick_enough)

lemma capitalize_hair: "capitalize ''hair'' = ''Hair''"
  by (simp add: capitalize_def toUpperCase_def)

lemma examplePath: "generateSVGPathFromPolygon decimal examplePoints = ''M100,100 L200,100 L150,200 Z''"
  by (simp add: generateSVGPathFromPolygon_def examplePoints_def decimal_eval)

text \<open>
  The component test's three clicks: a double click after two of them changes nothing,
  the third click is appended, and a double click then completes the segment.
\<close>

theorem finalize_needs_three_points_witness:
  "length (take 2 examplePoints) < 3 \<and> 3 \<le> length examplePoints \<and> truthy (Some ''hair'')
   \<and> handleDoubleClick exampleBrowser (Some ''hair'')
      \<lparr> anchorPoints = take 2 examplePoints, isComplete = False, completed = [] \<rparr> =
      \<lparr> anchorPoints = take 2 examplePoints, isComplete = False, completed = [] \<rparr>
   \<and> handleCanvasClick exampleBrowser (Some ''hair'') (150, 200)
      \<lparr> anchorPoints = take 2 examplePoints, isComplete = False, completed = [] \<rparr> =
      \<lparr> anchorPoints = examplePoints, isComplete = False, completed = [] \<rparr>
   \<and> handleDoubleClick exampleBrowser (Some ''hair'')
      \<lparr> anchorPoints = examplePoints, isComplete = False, completed = [] \<rparr> =
      \<lparr> anchorPoints = [], isComplete = False,
        completed = [\<lparr> seg_id = ''hair'', name = ''Hair'',
                       seg_mask = ''data:image/png;base64,mask'',
                       svgPath = Some ''M100,100 L200,100 L150,200 Z'',
                       ditherPattern = None, patternOffset = None \<rparr>] \<rparr>"
proof -
  let ?two = "\<lparr> anchorPoints = take 2 examplePoints, isComplete = False, completed = [] \<rparr>"
  let ?three = "\<lparr> anchorPoints = examplePoints, isComplete = False, completed = [] \<rparr>"
  let ?rect = "\<lparr> rect_left = 0, rect_top = 0, rect_width = 400, rect_height = 300,
                 canvas_width = 400, canvas_height = 300 \<rparr>"
  have two: "length (anchorPoints ?two) < 3" by (simp add: examplePoints_def)
  have three: "3 \<le> length (anchorPoints ?three)" by (simp add: examplePoints_def)
  have hair: "truthy (Some ''hair'')" by (simp add: truthy_def)
  have rect: "overlayCanvas exampleBrowser = Some ?rect" by (simp add: exampleBrowser_def)
  from finalize_needs_three_points[of ?two exampleBrowser "Some ''hair''" "(150, 200)" ?rect]
    two hair rect
  have a: "handleDoubleClick exampleBrowser (Some ''hair'') ?two = ?two"
    and b: "handleCanvasClick exampleBrowser (Some ''hair'') (150, 200) ?two = ?three"
    by (simp_all add: clickPosition_def examplePoints_def)
  from finalize_needs_three_points[of ?three exampleBrowser "Some ''hair''" "(150, 200)" ?rect]
    three hair
  have c: "handleDoubleClick exampleBrowser (Some ''hair'') ?three =
      ?three \<lparr> completed := [segmentOf exampleBrowser ''hair'' examplePoints],
               anchorPoints := [], isComplete := False \<rparr>"
    by simp
  have l2: "length (take 2 examplePoints) < 3" and l3: "3 \<le> length examplePoints"
    by (simp_all add: examplePoints_def)
  have "handleDoubleClick exampleBrowser (Some ''hair'') ?three =
      \<lparr> anchorPoints = [], isComplete = False,
        completed = [\<lparr> seg_id = ''hair'', name = ''Hair'',
                       seg_mask = ''data:image/png;base64,mask'',
                       svgPath = Some ''M100,100 L200,100 L150,200 Z'',
                       ditherPattern = None, patternOffset = None \<rparr>] \<rparr>"
    using c
    by (simp add: segmentOf_def capitalize_hair examplePath exampleBrowser_def
        generateMaskFromPolygon_def)
  then show ?thesis
    by (intro conjI l2 l3 hair a b)
qed

text \<open>
  C5 as stated says that a closing click with fewer than three anchor points leaves the
  anchor points unchanged.  With two anchor points, a click exactly on the first one
  (distance 0, well within 15 pixels) is appended as a third anchor point.
\<close>

theorem close_click_below_three_points:
  "anchorPoints (handleCanvasClick exampleBrowser (Some ''hair'') (100, 100)
      \<lparr> anchorPoints = take 2 examplePoints, isComplete = False, completed = [] \<rparr>) =
     take 2 examplePoints @ [\<lparr> cp_x = 100, cp_y = 100, cp_type = Include \<rparr>]
   \<and> distanceTo (examplePoints ! 0) (clickPosition
        \<lparr> rect_left = 0, rect_top = 0, rect_width = 400, rect_height = 300,
          canvas_width = 400, canvas_height = 300 \<rparr> (100, 100)) < 15
   \<and> anchorPoints (handleCanvasClick exampleBrowser (Some ''hair'') (100, 100)
      \<lparr> anchorPoints = take 2 examplePoints, isComplete = False, completed = [] \<rparr>) \<noteq>
     take 2 examplePoints"
  by (simp add: handleCanvasClick_def exampleBrowser_def truthy_def examplePoints_def Let_def
      distanceTo_def clickPosition_def)

section \<open>Closing click and double click\<close>

text \<open>
  C6.  With at least three anchor points, a click that lands less than 15 pixels from
  the first anchor point does exactly what a double click does: the same state results
  and the callback receives the same segment, made from the anchor points as they were,
  so with the same path and the same mask.  The position of the closing click is not
  appended.  (A segment type is selected and the completion flag is not set in every
  state with anchor points that a run reaches, by \<open>run_capturing\<close>; the click is
  measured on the overlay canvas, so that canvas is there.)
\<close>

theorem close_click_equals_double_click:
  assumes "truthy current" "\<not> isComplete st" "overlayCanvas env = Some rect"
    "3 \<le> length (anchorPoints st)"
    "distanceTo (anchorPoints st ! 0) (clickPosition rect e) < 15"
  shows "handleCanvasClick env current e st = handleDoubleClick env current st
     \<and> completed (handleCanvasClick env current e st) =
         completed st @ [segmentOf env (the current) (anchorPoints st)]
     \<and> anchorPoints (handleCanvasClick env current e st) = []
     \<and> svgPath (segmentOf env (the current) (anchorPoints st)) =
         Some (generateSVGPathFromPolygon (numberToString env) (anchorPoints st))
     \<and> seg_mask (segmentOf env (the current) (anchorPoints st)) =
         generateMaskFromPolygon env (anchorPoints st)"
  using assms
  by (simp add: handleCanvasClick_close handleDoubleClick_enough segmentOf_def)

text \<open>
  A click at (103, 104), 5 pixels from the first of the three example points.
\<close>

theorem close_click_equals_double_click_witness:
  "3 \<le> length examplePoints \<and> truthy (Some ''hair'')
   \<and> distanceTo (examplePoints ! 0) (clickPosition
       \<lparr> rect_left = 0, rect_top = 0, rect_width = 400, rect_height = 300,
         canvas_width = 400, canvas_height = 300 \<rparr> (103, 104)) < 15
   \<and> handleCanvasClick exampleBrowser (Some ''hair'') (103, 104)
       \<lparr> anchorPoints = examplePoints, isComplete = False, completed = [] \<rparr> =
     handleDoubleClick exampleBrowser (Some ''hair'')
       \<lparr> anchorPoints = examplePoints, isComplete = False, completed = [] \<rparr>
   \<and> map svgPath (completed (handleCanvasClick exampleBrowser (Some ''hair'') (103, 104)
       \<lparr> anchorPoints = examplePoints, isComplete = False, completed = [] \<rparr>)) =
     [Some ''M100,100 L200,100 L150,200 Z'']"
proof -
  let ?three = "\<lparr> anchorPoints = examplePoints, isComplete = False, completed = [] \<rparr>"
  let ?rect = "\<lparr> rect_left = 0, rect_top = 0, rect_width = 400, rect_height = 300,
                 canvas_width = 400, canvas_height = 300 \<rparr>"
  have near: "distanceTo (anchorPoints ?three ! 0) (clickPosition ?rect (103, 104)) < 15"
    by (simp add: distanceTo_def clickPosition_def examplePoints_def real_less_lsqrt)
  have pre: "truthy (Some ''hair'')" "\<not> isComplete ?three"
    "overlayCanvas exampleBrowser = Some ?rect" "3 \<le> length (anchorPoints ?three)"
    by (simp_all add: truthy_def exampleBrowser_def examplePoints_def)
  note th = close_click_equals_double_click[OF pre near]
  have eq: "handleCanvasClick exampleBrowser (Some ''hair'') (103, 104) ?three =
      handleDoubleClick exampleBrowser (Some ''hair'') ?three"
    using th[THEN conjunct1] .
  have emitted: "completed (handleCanvasClick exampleBrowser (Some ''hair'') (103, 104) ?three) =
      [segmentOf exampleBrowser ''hair'' examplePoints]"
    using th[THEN conjunct2, THEN conjunct1] by simp
  have path: "svgPath (segmentOf exampleBrowser ''hair'' examplePoints) =
      Some ''M100,100 L200,100 L150,200 Z''"
    by (simp add: segmentOf_def examplePath exampleBrowser_def)
  show ?thesis
  proof (intro conjI)
    show "3 \<le> length examplePoints" using pre(4) by simp
    show "truthy (Some ''hair'')" by (rule pre(1))
    show "distanceTo (examplePoints ! 0) (clickPosition ?rect (103, 104)) < 15"
      using near by simp
    show "handleCanvasClick exampleBrowser (Some ''hair'') (103, 104) ?three =
      handleDoubleClick exampleBrowser (Some ''hair'') ?three"
      by (rule eq)
    show "map svgPath (completed (handleCanvasClick exampleBrowser (Some ''hair'') (103, 104) ?three)) =
      [Some ''M100,100 L200,100 L150,200 Z'']"
      unfolding emitted using path by simp
  qed
qed

section \<open>The segment collection is keyed by id\<close>

lemma appStep_distinct_ids:
  assumes "distinct (map seg_id (segments st))"
  shows "distinct (map seg_id (segments (appStep st ev)))"
proof (cases ev)
  case (SegmentComplete segment)
  have "seg_id segment \<notin> seg_id ` set (filter (\<lambda>s. seg_id s \<noteq> seg_id segment) (segments st))"
    by auto
  moreover have "distinct (map seg_id (filter (\<lambda>s. seg_id s \<noteq> seg_id segment) (segments st)))"
    using assms by (rule distinct_map_filter)
  ultimately show ?thesis
    using SegmentComplete by (simp add: handleSegmentComplete_def)
next
  case (DitherPatternChange i p)
  have "seg_id \<circ> (\<lambda>s::ImageSegment. if seg_id s = i then s\<lparr>ditherPattern := Some p\<rparr> else s) = seg_id"
    by (auto simp: fun_eq_iff)
  then show ?thesis
    using assms DitherPatternChange by (simp add: handleDitherPatternChange_def)
next
  case (PatternOffsetChange i off)
  have "seg_id \<circ> (\<lambda>s::ImageSegment. if seg_id s = i then s\<lparr>patternOffset := Some off\<rparr> else s) = seg_id"
    by (auto simp: fun_eq_iff)
  then show ?thesis
    using assms PatternOffsetChange by (simp add: handlePatternOffsetChange_def)
qed (use assms in \<open>simp_all add: handleImageUpload_def handleSegmentSelect_def initialState_def\<close>)

lemma run_distinct_ids:
  "distinct (map seg_id (segments (foldl appStep initialState events)))"
proof (induction events rule: rev_induct)
  case Nil
  show ?case by (simp add: initialState_def)
next
  case (snoc ev events)
  then show ?case by (simp add: appStep_distinct_ids)
qed

text \<open>
  C7.  Whatever events the application has handled since its initial state, no two
  segments of the collection have the same id.  Completing a segment leaves exactly
  that segment under its id, as the last entry, and leaves the segments with other ids
  as they were: an earlier segment with the same id is dropped, not merged.
\<close>

theorem segments_keyed_by_id:
  "distinct (map seg_id (segments (foldl appStep initialState events)))
   \<and> filter (\<lambda>s. seg_id s = seg_id segment) (segments (handleSegmentComplete segment st)) = [segment]
   \<and> filter (\<lambda>s. seg_id s \<noteq> seg_id segment) (segments (handleSegmentComplete segment st)) =
       filter (\<lambda>s. seg_id s \<noteq> seg_id segment) (segments st)
   \<and> last (segments (handleSegmentComplete segment st)) = segment"
proof -
  have "filter (\<lambda>s. seg_id s = seg_id segment)
          (filter (\<lambda>s. seg_id s \<noteq> seg_id segment) (segments st)) = []"
    by (simp add: filter_empty_conv)
  then show ?thesis
    using run_distinct_ids[of events] by (simp add: handleSegmentComplete_def)
qed

text \<open>
  Completing \<open>hair\<close>, then \<open>face\<close>, then \<open>hair\<close> again with another path leaves \<open>face\<close> and
  the second \<open>hair\<close>.
\<close>

theorem segments_keyed_by_id_witness:
  "map seg_id (segments (foldl appStep initialState
       [SegmentComplete hair, SegmentComplete face,
        SegmentComplete (hair \<lparr> svgPath := Some ''M1,1 L9,1 L5,8 Z'' \<rparr>)])) = [''face'', ''hair'']
   \<and> map svgPath (segments (foldl appStep initialState
       [SegmentComplete hair, SegmentComplete face,
        SegmentComplete (hair \<lparr> svgPath := Some ''M1,1 L9,1 L5,8 Z'' \<rparr>)])) =
       [Some ''M10,10 L90,10 L50,80 Z'', Some ''M1,1 L9,1 L5,8 Z'']"
  using segments_keyed_by_id[of "[SegmentComplete hair, SegmentComplete face,
        SegmentComplete (hair \<lparr> svgPath := Some ''M1,1 L9,1 L5,8 Z'' \<rparr>)]" hair initialState]
  by (simp add: initialState_def handleSegmentComplete_def hair_def face_def)

section \<open>The side length of the dot tile\<close>

lemma dotSize_clamp: "max 12 (min 48 v) = clampTo 12 48 (v::real)"
  by (simp add: clampTo_def max_def min_def)

lemma generatePatternDef_dots:
  "generatePatternDef numStr ''dots'' offset dims =
     dotTile numStr (max 12 (min 48 (min (width dims) (height dims) / 15))) offset"
  by (simp only: generatePatternDef_def dotTile_def Let_def list.inject char.inject simp_thms
        if_False if_True append_Cons append_Nil append_assoc)

lemma generatePatternDef_editor_dots:
  "generatePatternDef_editor numStr ''dots'' offset dims =
     dotTile numStr (max 12 (min 48 (min (width dims) (height dims) / 15))) offset"
  by (simp only: generatePatternDef_editor_def dotTile_def Let_def list.inject char.inject simp_thms
        if_False if_True append_Cons append_Nil append_assoc)

text \<open>
  C4.  For all image dimensions the tile that \<open>generatePatternDef\<close> emits for the pattern
  \<^verbatim>\<open>dots\<close> is the dot tile whose side is \<open>min(width, height) / 15\<close> clamped to \<open>[12, 48]\<close>,
  in the export component and in the editor alike; on a 4000 by 4000 target the side is
  48 and on a 150 by 150 target it is 12.
\<close>

theorem dot_tile_side_length:
  "generatePatternDef numStr ''dots'' offset dims =
     dotTile numStr (clampTo 12 48 (min (width dims) (height dims) / 15)) offset
   \<and> generatePatternDef_editor numStr ''dots'' offset dims =
     dotTile numStr (clampTo 12 48 (min (width dims) (height dims) / 15)) offset
   \<and> generatePatternDef numStr ''dots'' offset \<lparr> width = 4000, height = 4000 \<rparr> =
     dotTile numStr 48 offset
   \<and> generatePatternDef numStr ''dots'' offset \<lparr> width = 150, height = 150 \<rparr> =
     dotTile numStr 12 offset
   \<and> generatePatternDef_editor numStr ''dots'' offset \<lparr> width = 4000, height = 4000 \<rparr> =
     dotTile numStr 48 offset
   \<and> generatePatternDef_editor numStr ''dots'' offset \<lparr> width = 150, height = 150 \<rparr> =
     dotTile numStr 12 offset"
  by (simp add: generatePatternDef_dots generatePatternDef_editor_dots dotSize_clamp clampTo_def)

text \<open>The dot tile of the export component for a 4000 by 4000 image, without offset.\<close>

theorem dot_tile_side_length_witness:
  \<open>generatePatternDef decimal ''dots'' \<lparr> off_x = 0, off_y = 0 \<rparr> \<lparr> width = 4000, height = 4000 \<rparr> =
     ''\<newline>'' @
     ''        <pattern id="dots" patternUnits="userSpaceOnUse" width="48" height="48" \<newline>'' @
     ''                 patternTransform="translate(0,0)">\<newline>'' @
     ''          <circle cx="24" cy="24" r="6" fill="currentColor" opacity="0.8"/>\<newline>'' @
     ''        </pattern>\<newline>'' @
     ''      ''\<close>
proof -
  have "generatePatternDef decimal ''dots'' \<lparr> off_x = 0, off_y = 0 \<rparr> \<lparr> width = 4000, height = 4000 \<rparr> =
      dotTile decimal 48 \<lparr> off_x = 0, off_y = 0 \<rparr>"
    using dot_tile_side_length[of decimal "\<lparr> off_x = 0, off_y = 0 \<rparr>"] by blast
  then show ?thesis
    by (simp add: dotTile_def decimal_eval)
qed

section \<open>Counting occurrences in the exported text\<close>

lemma occurrences_skip:
  "c \<notin> set v \<Longrightarrow> occurrences (c # pat) (v @ rest) = occurrences (c # pat) rest"
  by (induction v) auto

lemma occurrences_skip_plain:
  "plain v \<Longrightarrow> occurrences (CHR ''<'' # pat) (v @ rest) = occurrences (CHR ''<'' # pat) rest"
  by (simp add: plain_def occurrences_skip)

lemma prefix_upto_quote:
  "CHR 0x22 \<notin> set p \<Longrightarrow> CHR 0x22 \<notin> set q \<Longrightarrow>
   prefix (p @ [CHR 0x22]) (q @ CHR 0x22 # r) \<longleftrightarrow> p = q"
proof (induction p arbitrary: q)
  case Nil
  then show ?case by (cases q) auto
next
  case (Cons a p)
  then show ?case by (cases q) auto
qed

lemma prefix_upto_quote_plain:
  "plain p \<Longrightarrow> plain q \<Longrightarrow> prefix (p @ [CHR 0x22]) (q @ CHR 0x22 # r) \<longleftrightarrow> p = q"
  by (simp add: plain_def prefix_upto_quote)

text \<open>
  The rules that evaluate \<open>occurrences\<close> along a text made of literal characters and
  plain variable parts.  They leave the numbers inside the text alone.
\<close>

lemmas occ_eval = append_Cons append_Nil append_assoc occurrences.simps Cons_prefix_Cons Nil_prefix
  prefix_Nil char.inject simp_thms if_True if_False list.inject list.distinct add_0 add_0_right
  occurrences_skip_plain

lemma plainNumbersD: "plainNumbers numStr \<Longrightarrow> plain (numStr v)"
  by (simp add: plainNumbers_def)

lemma getSegmentColor_plain: "plain (getSegmentColor i)"
  by (simp add: getSegmentColor_def colors_def orElse_def plain_def)

lemma truthy_orElse: "truthy v \<Longrightarrow> orElse v d = the v"
  by (cases v) (simp_all add: truthy_def orElse_def)

lemma falsy_orElse: "\<not> truthy v \<Longrightarrow> orElse v d = d"
  by (cases v) (simp_all add: truthy_def orElse_def)

lemma plainInput_segment: "plainInput env segs \<Longrightarrow> s \<in> set segs \<Longrightarrow> plainSegment env s"
  by (simp add: plainInput_def list_all_iff)

lemma plainInput_numbers: "plainInput env segs \<Longrightarrow> plainNumbers (numberToString env)"
  by (simp add: plainInput_def)

lemma plainSegment_pattern:
  "plainSegment env s \<Longrightarrow> truthy (ditherPattern s) \<Longrightarrow> plain (the (ditherPattern s))"
  by (simp add: plainSegment_def truthy_orElse)

lemma sum_list_indicator:
  "sum_list (map (\<lambda>x. if P x then Suc 0 else 0) xs) = length (filter P xs)"
  by (induction xs) simp_all

lemma occ_join_map:
  assumes elem: "\<And>x rest. x \<in> set xs \<Longrightarrow>
      occurrences pat (g x @ rest) = f x + occurrences pat rest"
    and sep: "\<And>rest. occurrences pat (sep @ rest) = occurrences pat rest"
  shows "occurrences pat (join sep (map g xs) @ rest) = sum_list (map f xs) + occurrences pat rest"
  using elem
proof (induction xs rule: induct_list012)
  case 1
  then show ?case by simp
next
  case (2 x)
  then show ?case by simp
next
  case (3 x y zs)
  have "occurrences pat (join sep (map g (y # zs)) @ rest) =
      sum_list (map f (y # zs)) + occurrences pat rest"
    using 3 by simp
  then show ?case using 3(3)[of x] sep by simp
qed

subsection \<open>One tile definition\<close>

lemma occ_path_patternDef:
  assumes "plain pid" "plainNumbers numStr"
  shows "occurrences ''<path '' (generatePatternDef numStr pid off dims @ rest) =
         occurrences ''<path '' rest"
  using assms(1) plainNumbersD[OF assms(2)]
  by (simp only: generatePatternDef_def Let_def occ_eval split: if_split)

lemma occ_pattern_patternDef:
  assumes "plain pid" "plainNumbers numStr"
  shows "occurrences ''<pattern '' (generatePatternDef numStr pid off dims @ rest) =
         1 + occurrences ''<pattern '' rest"
  using assms(1) plainNumbersD[OF assms(2)]
  by (simp only: generatePatternDef_def Let_def occ_eval split: if_split)

lemma occ_patternId_patternDef_same:
  assumes "plain p" "plainNumbers numStr"
  shows \<open>occurrences (''<pattern id="'' @ p @ ''"'') (generatePatternDef numStr p off dims @ rest) =
          1 + occurrences (''<pattern id="'' @ p @ ''"'') rest\<close>
  apply (simp only: generatePatternDef_def Let_def)
  apply ((split if_split)+)
  apply (intro conjI impI)
  apply (simp_all (no_asm) only: occ_eval prefix_upto_quote_plain[OF assms(1) assms(1)] assms(1)
      plainNumbersD[OF assms(2)])
  done

lemma occ_patternId_patternDef_other:
  assumes "plain p" "plain pid" "plainNumbers numStr" "pid \<noteq> p"
  shows \<open>occurrences (''<pattern id="'' @ p @ ''"'') (generatePatternDef numStr pid off dims @ rest) =
          occurrences (''<pattern id="'' @ p @ ''"'') rest\<close>
proof -
  have ne: "(p = pid) = False" using assms(4) by auto
  show ?thesis
    apply (simp only: generatePatternDef_def Let_def)
    apply ((split if_split)+)
    apply (intro conjI impI)
    apply (simp_all (no_asm) only: occ_eval prefix_upto_quote_plain[OF assms(1) assms(2)] ne assms(2)
        plainNumbersD[OF assms(3)])
    done
qed

lemma occ_patternId_patternDef:
  assumes "plain p" "plain pid" "plainNumbers numStr"
  shows \<open>occurrences (''<pattern id="'' @ p @ ''"'') (generatePatternDef numStr pid off dims @ rest) =
          (if pid = p then 1 else 0) + occurrences (''<pattern id="'' @ p @ ''"'') rest\<close>
  using occ_patternId_patternDef_same[OF assms(1,3)] occ_patternId_patternDef_other[OF assms]
  by (cases "pid = p") simp_all

subsection \<open>One segment group\<close>

lemma occ_path_segmentPath:
  assumes "plainSegment env s"
  shows "occurrences ''<path '' (segmentPath env s @ rest) = 1 + occurrences ''<path '' rest"
  using assms getSegmentColor_plain[of "seg_id s"] unfolding plainSegment_def
  by (simp only: segmentPath_def Let_def occ_eval)

lemma occ_pattern_segmentPath:
  assumes "plainSegment env s"
  shows "occurrences ''<pattern '' (segmentPath env s @ rest) = 0 + occurrences ''<pattern '' rest"
  using assms getSegmentColor_plain[of "seg_id s"] unfolding plainSegment_def
  by (simp only: segmentPath_def Let_def occ_eval)

lemma occ_patternId_segmentPath:
  assumes "plainSegment env s"
  shows \<open>occurrences (''<pattern id="'' @ p @ ''"'') (segmentPath env s @ rest) =
          0 + occurrences (''<pattern id="'' @ p @ ''"'') rest\<close>
  using assms getSegmentColor_plain[of "seg_id s"] unfolding plainSegment_def
  by (simp only: segmentPath_def Let_def occ_eval)

subsection \<open>The joined definitions and groups\<close>

lemma occ_patternDefs:
  assumes inp: "plainInput env segs"
    and elem: "\<And>pid off r. plain pid \<Longrightarrow>
        occurrences pat (generatePatternDef (numberToString env) pid off dims @ r) =
        f pid + occurrences pat r"
    and nl: "\<And>r. occurrences pat (''\<newline>'' @ r) = occurrences pat r"
  shows "occurrences pat (join ''\<newline>'' (patternDefList (numberToString env) dims segs) @ rest) =
         sum_list (map (\<lambda>s. f (the (ditherPattern s)))
           (filter (\<lambda>s. truthy (ditherPattern s)) segs)) + occurrences pat rest"
  unfolding patternDefList_def
proof (rule occ_join_map)
  fix s r assume "s \<in> set (filter (\<lambda>s. truthy (ditherPattern s)) segs)"
  then have "plain (the (ditherPattern s))"
    using plainInput_segment[OF inp] plainSegment_pattern by auto
  from elem[OF this] show "occurrences pat ((let patternId = the (ditherPattern s);
              offset = (case patternOffset s of None \<Rightarrow> \<lparr> off_x = 0, off_y = 0 \<rparr> | Some off \<Rightarrow> off)
          in generatePatternDef (numberToString env) patternId offset dims) @ r) =
          f (the (ditherPattern s)) + occurrences pat r"
    by (simp add: Let_def)
next
  fix r show "occurrences pat (''\<newline>'' @ r) = occurrences pat r" by (rule nl)
qed

lemma occ_segmentPaths:
  assumes inp: "plainInput env segs"
    and elem: "\<And>s r. plainSegment env s \<Longrightarrow>
        occurrences pat (segmentPath env s @ r) = k + occurrences pat r"
    and nl: "\<And>r. occurrences pat (''\<newline>'' @ r) = occurrences pat r"
  shows "occurrences pat (join ''\<newline>'' (segmentPaths env segs includeAll) @ rest) =
         k * length (filter (\<lambda>s. includeAll \<or> truthy (ditherPattern s)) segs) +
         occurrences pat rest"
proof -
  have "occurrences pat (join ''\<newline>'' (segmentPaths env segs includeAll) @ rest) =
         sum_list (map (\<lambda>s. k) (filter (\<lambda>s. includeAll \<or> truthy (ditherPattern s)) segs)) +
         occurrences pat rest"
    unfolding segmentPaths_def
  proof (rule occ_join_map)
    fix s r assume "s \<in> set (filter (\<lambda>s. includeAll \<or> truthy (ditherPattern s)) segs)"
    then have "plainSegment env s" using plainInput_segment[OF inp] by auto
    from elem[OF this] show "occurrences pat (segmentPath env s @ r) = k + occurrences pat r" .
  next
    fix r show "occurrences pat (''\<newline>'' @ r) = occurrences pat r" by (rule nl)
  qed
  then show ?thesis by (simp add: sum_list_triv)
qed

subsection \<open>The whole document\<close>

lemma occ_path_generateSVG:
  assumes inp: "plainInput env segs"
  shows "occurrences ''<path '' (generateSVG env dims segs includeAll) =
         length (filter (\<lambda>s. includeAll \<or> truthy (ditherPattern s)) segs)"
proof -
  note pn = plainNumbersD[OF plainInput_numbers[OF inp]]
  have defs: "occurrences ''<path '' (join ''\<newline>'' (patternDefList (numberToString env) dims segs) @ r) =
      occurrences ''<path '' r" for r
    using occ_patternDefs[OF inp, where pat="''<path ''" and dims=dims and f="\<lambda>_. 0" and rest=r]
      occ_path_patternDef[OF _ plainInput_numbers[OF inp]]
    by simp
  have paths: "occurrences ''<path '' (join ''\<newline>'' (segmentPaths env segs includeAll) @ r) =
      length (filter (\<lambda>s. includeAll \<or> truthy (ditherPattern s)) segs) + occurrences ''<path '' r" for r
    using occ_segmentPaths[OF inp, where pat="''<path ''" and k=1 and rest=r and includeAll=includeAll]
      occ_path_segmentPath
    by simp
  show ?thesis
    by (simp only: generateSVG_def Let_def occ_eval defs paths pn)
qed

lemma occ_pattern_generateSVG:
  assumes inp: "plainInput env segs"
  shows "occurrences ''<pattern '' (generateSVG env dims segs includeAll) =
         length (filter (\<lambda>s. truthy (ditherPattern s)) segs)"
proof -
  note pn = plainNumbersD[OF plainInput_numbers[OF inp]]
  have defs: "occurrences ''<pattern '' (join ''\<newline>'' (patternDefList (numberToString env) dims segs) @ r) =
      length (filter (\<lambda>s. truthy (ditherPattern s)) segs) + occurrences ''<pattern '' r" for r
    using occ_patternDefs[OF inp, where pat="''<pattern ''" and dims=dims and f="\<lambda>_. 1" and rest=r]
      occ_pattern_patternDef[OF _ plainInput_numbers[OF inp]]
    by (simp add: sum_list_triv)
  have paths: "occurrences ''<pattern '' (join ''\<newline>'' (segmentPaths env segs includeAll) @ r) =
      occurrences ''<pattern '' r" for r
    using occ_segmentPaths[OF inp, where pat="''<pattern ''" and k=0 and rest=r and includeAll=includeAll]
      occ_pattern_segmentPath
    by simp
  show ?thesis
    by (simp only: generateSVG_def Let_def occ_eval defs paths pn)
qed

lemma occ_patternId_generateSVG:
  assumes inp: "plainInput env segs" and p: "plain p"
  shows \<open>occurrences (''<pattern id="'' @ p @ ''"'') (generateSVG env dims segs includeAll) =
         length (filter (\<lambda>s. truthy (ditherPattern s) \<and> ditherPattern s = Some p) segs)\<close>
proof -
  let ?pat = \<open>''<pattern id="'' @ p @ ''"''\<close>
  note pn = plainNumbersD[OF plainInput_numbers[OF inp]]
  have count: "sum_list (map (\<lambda>s. if the (ditherPattern s) = p then 1 else 0)
        (filter (\<lambda>s. truthy (ditherPattern s)) segs)) =
      length (filter (\<lambda>s. truthy (ditherPattern s) \<and> ditherPattern s = Some p) segs)"
    by (induction segs) (auto simp: truthy_def split: option.splits)
  have defs: "occurrences ?pat (join ''\<newline>'' (patternDefList (numberToString env) dims segs) @ r) =
      length (filter (\<lambda>s. truthy (ditherPattern s) \<and> ditherPattern s = Some p) segs) +
      occurrences ?pat r" for r
    using occ_patternDefs[OF inp, where pat="?pat" and dims=dims
        and f="\<lambda>pid. if pid = p then 1 else 0" and rest=r]
      occ_patternId_patternDef[OF p _ plainInput_numbers[OF inp]] count
    by simp
  have paths: "occurrences ?pat (join ''\<newline>'' (segmentPaths env segs includeAll) @ r) =
      occurrences ?pat r" for r
    using occ_segmentPaths[OF inp, where pat="?pat" and k=0 and rest=r and includeAll=includeAll]
      occ_patternId_segmentPath
    by simp
  show ?thesis
    using defs paths
    by (simp only: generateSVG_def Let_def occ_eval pn)
qed

section \<open>Where the pieces stand in the exported text\<close>

lemma sublist_skip_char: "sublist n cs \<Longrightarrow> sublist n (c # cs)"
  by (simp add: sublist_Cons_right)

lemma sublist_skip_part: "sublist n r \<Longrightarrow> sublist n (v @ r)"
  by (metis sublist_append_leftI sublist_order.order_trans)

lemma sublist_in_part: "sublist n v \<Longrightarrow> sublist n (v @ r)"
  by (metis sublist_append_rightI sublist_order.order_trans)

lemma sublist_join: "x \<in> set xs \<Longrightarrow> sublist x (join sep xs)"
proof (induction xs rule: induct_list012)
  case 1
  then show ?case by simp
next
  case (2 y)
  then show ?case by simp
next
  case (3 y z zs)
  show ?case
  proof (cases "x = y")
    case True
    then show ?thesis by simp
  next
    case False
    with 3 have "sublist x (join sep (z # zs))" by simp
    then show ?thesis
      by (simp add: sublist_skip_part)
  qed
qed

lemma segmentPath_in_generateSVG:
  assumes "s \<in> set segs" "includeAll \<or> truthy (ditherPattern s)"
  shows "sublist (segmentPath env s) (generateSVG env dims segs includeAll)"
proof -
  have "segmentPath env s \<in> set (segmentPaths env segs includeAll)"
    using assms by (auto simp: segmentPaths_def)
  then have here: "sublist (segmentPath env s) (join ''\<newline>'' (segmentPaths env segs includeAll))"
    by (rule sublist_join)
  show ?thesis
    unfolding generateSVG_def Let_def
    apply (simp only: append_Cons append_Nil append_assoc)
    apply ((rule sublist_in_part, rule here) | rule sublist_skip_char | rule sublist_skip_part)+
    done
qed

lemma data_segment_in_segmentPath:
  \<open>sublist (''data-segment="'' @ seg_id s @ ''"'') (segmentPath env s)\<close>
  unfolding segmentPath_def Let_def
  apply (simp only: append_Cons append_Nil append_assoc)
  apply ((rule prefix_imp_sublist, (simp; fail)) | rule sublist_skip_char | rule sublist_skip_part)+
  done

lemma segmentPath_solid:
  assumes "\<not> truthy (ditherPattern s)"
  shows \<open>segmentPath env s =
       ''\<newline>'' @
       ''          <g color="'' @ getSegmentColor (seg_id s) @ ''">\<newline>'' @
       ''            <path \<newline>'' @
       ''              d="'' @ orElse (svgPath s) (pathFromMask env (seg_mask s)) @ ''" \<newline>'' @
       ''              fill="url(#solid)" \<newline>'' @
       ''              stroke="'' @ getSegmentColor (seg_id s) @ ''" \<newline>'' @
       ''              stroke-width="2"\<newline>'' @
       ''              data-segment="'' @ seg_id s @ ''"\<newline>'' @
       ''            />\<newline>'' @
       ''          </g>\<newline>'' @
       ''        ''\<close>
  by (simp add: segmentPath_def Let_def falsy_orElse[OF assms])

lemma generateSVG_patterns_only:
  "generateSVG env dims segs False =
   generateSVG env dims (filter (\<lambda>s. truthy (ditherPattern s)) segs) True"
  by (simp add: generateSVG_def patternDefList_def segmentPaths_def)

section \<open>Export of an empty segment list\<close>

lemma generateSVG_Nil:
  \<open>generateSVG env dims [] includeAll =
     ''\<newline>'' @
     ''      <svg width="'' @ numberToString env (width dims) @ ''" height="'' @ numberToString env (height dims) @ ''" viewBox="0 0 '' @ numberToString env (width dims) @ '' '' @ numberToString env (height dims) @ ''" xmlns="http://www.w3.org/2000/svg">\<newline>'' @
     ''        <defs>\<newline>'' @
     ''          \<newline>'' @
     ''        </defs>\<newline>'' @
     ''        <rect width="100%" height="100%" fill="white"/>\<newline>'' @
     ''        \<newline>'' @
     ''      </svg>\<newline>'' @
     ''    ''\<close>
  by (simp add: generateSVG_def Let_def patternDefList_def segmentPaths_def)

text \<open>
  C8.  For an empty segment list and any dimensions, in either mode, \<open>generateSVG\<close>
  returns exactly the text below: the root \<^verbatim>\<open>svg\<close> element with the width and height
  printed into its \<^verbatim>\<open>width\<close>, \<^verbatim>\<open>height\<close> and \<^verbatim>\<open>viewBox\<close> attributes, an empty \<^verbatim>\<open>defs\<close>
  element, the white background rectangle, and nothing else.  No tile definition and
  no segment group is emitted; when the two numbers print as plain text, the document
  holds one \<^verbatim>\<open>svg\<close> start tag, one end tag, the background rectangle once, and no group,
  path or pattern element.
\<close>

theorem generateSVG_empty:
  \<open>generateSVG env dims [] includeAll =
     ''\<newline>'' @
     ''      <svg width="'' @ numberToString env (width dims) @ ''" height="'' @ numberToString env (height dims) @ ''" viewBox="0 0 '' @ numberToString env (width dims) @ '' '' @ numberToString env (height dims) @ ''" xmlns="http://www.w3.org/2000/svg">\<newline>'' @
     ''        <defs>\<newline>'' @
     ''          \<newline>'' @
     ''        </defs>\<newline>'' @
     ''        <rect width="100%" height="100%" fill="white"/>\<newline>'' @
     ''        \<newline>'' @
     ''      </svg>\<newline>'' @
     ''    ''
   \<and> patternDefList (numberToString env) dims [] = []
   \<and> segmentPaths env [] includeAll = []
   \<and> (plain (numberToString env (width dims)) \<and> plain (numberToString env (height dims)) \<longrightarrow>
        occurrences ''<svg '' (generateSVG env dims [] includeAll) = 1
      \<and> occurrences ''</svg>'' (generateSVG env dims [] includeAll) = 1
      \<and> occurrences ''<rect width="100%" height="100%" fill="white"/>''
           (generateSVG env dims [] includeAll) = 1
      \<and> occurrences ''<g '' (generateSVG env dims [] includeAll) = 0
      \<and> occurrences ''<path'' (generateSVG env dims [] includeAll) = 0
      \<and> occurrences ''<pattern'' (generateSVG env dims [] includeAll) = 0)\<close>
proof -
  have counts: \<open>occurrences ''<svg '' (generateSVG env dims [] includeAll) = 1
      \<and> occurrences ''</svg>'' (generateSVG env dims [] includeAll) = 1
      \<and> occurrences ''<rect width="100%" height="100%" fill="white"/>''
           (generateSVG env dims [] includeAll) = 1
      \<and> occurrences ''<g '' (generateSVG env dims [] includeAll) = 0
      \<and> occurrences ''<path'' (generateSVG env dims [] includeAll) = 0
      \<and> occurrences ''<pattern'' (generateSVG env dims [] includeAll) = 0\<close>
    if "plain (numberToString env (width dims))" "plain (numberToString env (height dims))"
    using that by (simp only: generateSVG_Nil occ_eval)
  show ?thesis
    using generateSVG_Nil[of env dims includeAll] counts
    by (simp add: patternDefList_def segmentPaths_def)
qed

lemma decimal_800: "decimal 800 = ''800''" and decimal_600: "decimal 600 = ''600''"
  by (simp_all add: decimal_eval)

text \<open>
  The empty document for an 800 by 600 image.
\<close>

theorem generateSVG_empty_witness:
  \<open>plain (numberToString exampleBrowser 800) \<and> plain (numberToString exampleBrowser 600)
   \<and> generateSVG exampleBrowser \<lparr> width = 800, height = 600 \<rparr> [] True =
     ''\<newline>'' @
     ''      <svg width="800" height="600" viewBox="0 0 800 600" xmlns="http://www.w3.org/2000/svg">\<newline>'' @
     ''        <defs>\<newline>'' @
     ''          \<newline>'' @
     ''        </defs>\<newline>'' @
     ''        <rect width="100%" height="100%" fill="white"/>\<newline>'' @
     ''        \<newline>'' @
     ''      </svg>\<newline>'' @
     ''    ''
   \<and> occurrences ''<svg '' (generateSVG exampleBrowser \<lparr> width = 800, height = 600 \<rparr> [] True) = 1
   \<and> occurrences ''<g '' (generateSVG exampleBrowser \<lparr> width = 800, height = 600 \<rparr> [] True) = 0
   \<and> occurrences ''<path'' (generateSVG exampleBrowser \<lparr> width = 800, height = 600 \<rparr> [] True) = 0\<close>
proof -
  have num: "numberToString exampleBrowser = decimal"
    by (simp add: exampleBrowser_def)
  have pl: "plain (numberToString exampleBrowser v)" for v
    unfolding num by (rule plainNumbersD[OF plainNumbers_decimal])
  note th = generateSVG_empty[of exampleBrowser "\<lparr> width = 800, height = 600 \<rparr>" True]
  have doc: \<open>generateSVG exampleBrowser \<lparr> width = 800, height = 600 \<rparr> [] True =
     ''\<newline>'' @
     ''      <svg width="800" height="600" viewBox="0 0 800 600" xmlns="http://www.w3.org/2000/svg">\<newline>'' @
     ''        <defs>\<newline>'' @
     ''          \<newline>'' @
     ''        </defs>\<newline>'' @
     ''        <rect width="100%" height="100%" fill="white"/>\<newline>'' @
     ''        \<newline>'' @
     ''      </svg>\<newline>'' @
     ''    ''\<close>
    using th[THEN conjunct1] by (simp add: num decimal_800 decimal_600)
  have counts: \<open>occurrences ''<svg '' (generateSVG exampleBrowser \<lparr> width = 800, height = 600 \<rparr> [] True) = 1
   \<and> occurrences ''<g '' (generateSVG exampleBrowser \<lparr> width = 800, height = 600 \<rparr> [] True) = 0
   \<and> occurrences ''<path'' (generateSVG exampleBrowser \<lparr> width = 800, height = 600 \<rparr> [] True) = 0\<close>
    using th[THEN conjunct2, THEN conjunct2, THEN conjunct2] pl by simp
  show ?thesis
    using pl doc counts by blast
qed

section \<open>The two export modes\<close>

text \<open>
  C3.  In all mode every segment of the list is exported, whether or not it has a
  pattern: there is one group per segment, in the order of the list; the group of every
  segment stands in the exported text, and it carries \<^verbatim>\<open>data-segment\<close> with the
  segment's id.  The text exported in patterns-only mode is the text that all mode
  gives for the list without the segments that lack a pattern: nothing is printed for
  those.  The two export buttons hand over exactly these texts.  For plain segment data
  the number of \<^verbatim>\<open>path\<close> elements in the text can be counted: it is the number of
  segments in all mode, and the number of segments with a pattern in patterns-only
  mode.
\<close>

theorem export_modes:
  \<open>(\<forall>s. s \<in> set segs \<longrightarrow>
        sublist (segmentPath env s) (generateSVG env dims segs True)
      \<and> sublist (''data-segment="'' @ seg_id s @ ''"'') (segmentPath env s))
   \<and> segmentPaths env segs True = map (segmentPath env) segs
   \<and> generateSVG env dims segs False =
       generateSVG env dims (filter (\<lambda>s. truthy (ditherPattern s)) segs) True
   \<and> segmentPaths env segs False =
       map (segmentPath env) (filter (\<lambda>s. truthy (ditherPattern s)) segs)
   \<and> exportAllAsSVG env dims segs = generateSVG env dims segs True
   \<and> exportWithPatternsOnly env dims segs = generateSVG env dims segs False
   \<and> (plainInput env segs \<longrightarrow>
        occurrences ''<path '' (generateSVG env dims segs True) = length segs
      \<and> occurrences ''<path '' (generateSVG env dims segs False) =
          length (filter (\<lambda>s. truthy (ditherPattern s)) segs))\<close>
proof -
  have "exportWithPatternsOnly env dims segs = generateSVG env dims segs False"
    by (simp add: exportWithPatternsOnly_def Let_def generateSVG_def patternDefList_def
        segmentPaths_def)
  then show ?thesis
    using occ_path_generateSVG[of env segs dims True] occ_path_generateSVG[of env segs dims False]
      segmentPath_in_generateSVG[of _ segs True env dims] data_segment_in_segmentPath
      generateSVG_patterns_only[of env dims segs]
    by (simp add: exportAllAsSVG_def segmentPaths_def)
qed

lemma plainInput_examples: "plainInput exampleBrowser [hair, face, body]"
  using plainNumbers_decimal
  by (simp add: plainInput_def plainSegment_def plain_def exampleBrowser_def hair_def face_def
      body_def orElse_def)

text \<open>
  Three segments of which \<open>body\<close> has no pattern: three paths in all mode, two in
  patterns-only mode.
\<close>

theorem export_modes_witness:
  \<open>plainInput exampleBrowser [hair, face, body]
   \<and> occurrences ''<path '' (generateSVG exampleBrowser exampleDimensions
         [hair, face, body] True) = 3
   \<and> occurrences ''<path '' (generateSVG exampleBrowser exampleDimensions
         [hair, face, body] False) = 2
   \<and> sublist ''data-segment="body"'' (segmentPath exampleBrowser body)
   \<and> generateSVG exampleBrowser exampleDimensions [hair, face, body] False =
       generateSVG exampleBrowser exampleDimensions [hair, face] True\<close>
proof -
  have pat: "filter (\<lambda>s. truthy (ditherPattern s)) [hair, face, body] = [hair, face]"
    by (simp add: truthy_def hair_def face_def body_def)
  note th = export_modes[of "[hair, face, body]" exampleBrowser exampleDimensions, unfolded pat]
  have "sublist (''data-segment=\"'' @ seg_id body @ ''\"'') (segmentPath exampleBrowser body)"
    using th[THEN conjunct1] by simp
  then have c2: "sublist ''data-segment=\"body\"'' (segmentPath exampleBrowser body)"
    by (simp add: body_def)
  have c3: "generateSVG exampleBrowser exampleDimensions [hair, face, body] False =
       generateSVG exampleBrowser exampleDimensions [hair, face] True"
    using th[THEN conjunct2, THEN conjunct2, THEN conjunct1] .
  have counts: "occurrences ''<path '' (generateSVG exampleBrowser exampleDimensions
         [hair, face, body] True) = length [hair, face, body]
      \<and> occurrences ''<path '' (generateSVG exampleBrowser exampleDimensions
         [hair, face, body] False) = length [hair, face]"
    using th[THEN conjunct2, THEN conjunct2, THEN conjunct2, THEN conjunct2, THEN conjunct2,
        THEN conjunct2] plainInput_examples
    by blast
  have c1: "occurrences ''<path '' (generateSVG exampleBrowser exampleDimensions
         [hair, face, body] True) = 3"
    using counts[THEN conjunct1] by simp
  have c4: "occurrences ''<path '' (generateSVG exampleBrowser exampleDimensions
         [hair, face, body] False) = 2"
    using counts[THEN conjunct2] by simp
  show ?thesis
    by (intro conjI plainInput_examples c1 c2 c3 c4)
qed

section \<open>Tile definitions in the exported text\<close>

lemma patternDefList_map:
  "patternDefList numStr dims segs =
     map (\<lambda>s. generatePatternDef numStr (the (ditherPattern s))
                (case patternOffset s of None \<Rightarrow> \<lparr> off_x = 0, off_y = 0 \<rparr> | Some off \<Rightarrow> off) dims)
       (filter (\<lambda>s. truthy (ditherPattern s)) segs)"
  by (simp add: patternDefList_def Let_def)

lemma pattern_fill_in_segmentPath:
  assumes "truthy (ditherPattern s)"
  shows \<open>sublist (''fill="url(#'' @ the (ditherPattern s) @ '')"'') (segmentPath env s)\<close>
  unfolding segmentPath_def Let_def truthy_orElse[OF assms]
  apply (simp only: append_Cons append_Nil append_assoc)
  apply ((rule prefix_imp_sublist, (simp; fail)) | rule sublist_skip_char | rule sublist_skip_part)+
  done

text \<open>
  C1.  The exported text is to hold exactly one tile definition for each distinct
  pattern id that the segments refer to, and none twice.  The code does not do that
  when two segments share a pattern id.  With \<open>hair\<close> (no offset) and \<open>face\<close> (offset 3, 4)
  both set to \<^verbatim>\<open>dots\<close>, the list of tile definitions has two entries, one per segment,
  which differ in their offsets; the exported text defines \<^verbatim>\<open><pattern id="dots"\<close> twice;
  and the paths of both segments select their tile by the same \<^verbatim>\<open>fill="url(#dots)"\<close>.
\<close>

theorem duplicate_pattern_definition:
  \<open>map ditherPattern [hair, face \<lparr> ditherPattern := Some ''dots'' \<rparr>] = [Some ''dots'', Some ''dots'']
   \<and> patternDefList decimal exampleDimensions [hair, face \<lparr> ditherPattern := Some ''dots'' \<rparr>] =
       [generatePatternDef decimal ''dots'' \<lparr> off_x = 0, off_y = 0 \<rparr> exampleDimensions,
        generatePatternDef decimal ''dots'' \<lparr> off_x = 3, off_y = 4 \<rparr> exampleDimensions]
   \<and> generatePatternDef decimal ''dots'' \<lparr> off_x = 0, off_y = 0 \<rparr> exampleDimensions \<noteq>
       generatePatternDef decimal ''dots'' \<lparr> off_x = 3, off_y = 4 \<rparr> exampleDimensions
   \<and> occurrences ''<pattern id="dots"''
        (generateSVG exampleBrowser exampleDimensions
           [hair, face \<lparr> ditherPattern := Some ''dots'' \<rparr>] True) = 2
   \<and> sublist ''fill="url(#dots)"'' (segmentPath exampleBrowser hair)
   \<and> sublist ''fill="url(#dots)"''
        (segmentPath exampleBrowser (face \<lparr> ditherPattern := Some ''dots'' \<rparr>))\<close>
proof -
  have inp: "plainInput exampleBrowser [hair, face \<lparr> ditherPattern := Some ''dots'' \<rparr>]"
    using plainNumbers_decimal
    by (simp add: plainInput_def plainSegment_def plain_def exampleBrowser_def hair_def face_def
        orElse_def)
  have dots: "plain ''dots''" by (simp add: plain_def)
  have ids: "map ditherPattern [hair, face \<lparr> ditherPattern := Some ''dots'' \<rparr>] =
      [Some ''dots'', Some ''dots'']"
    by (simp add: hair_def)
  have tiles: "patternDefList decimal exampleDimensions
        [hair, face \<lparr> ditherPattern := Some ''dots'' \<rparr>] =
       [generatePatternDef decimal ''dots'' \<lparr> off_x = 0, off_y = 0 \<rparr> exampleDimensions,
        generatePatternDef decimal ''dots'' \<lparr> off_x = 3, off_y = 4 \<rparr> exampleDimensions]"
    by (simp add: patternDefList_map truthy_def hair_def face_def)
  have differ: "generatePatternDef decimal ''dots'' \<lparr> off_x = 0, off_y = 0 \<rparr> exampleDimensions \<noteq>
       generatePatternDef decimal ''dots'' \<lparr> off_x = 3, off_y = 4 \<rparr> exampleDimensions"
    by (simp add: generatePatternDef_dots dotTile_def decimal_eval)
  have twice: \<open>occurrences ''<pattern id="dots"''
        (generateSVG exampleBrowser exampleDimensions
           [hair, face \<lparr> ditherPattern := Some ''dots'' \<rparr>] True) = 2\<close>
    using occ_patternId_generateSVG[OF inp dots, of exampleDimensions True]
    by (simp add: truthy_def hair_def face_def)
  have fill1: \<open>sublist ''fill="url(#dots)"'' (segmentPath exampleBrowser hair)\<close>
    using pattern_fill_in_segmentPath[of hair exampleBrowser]
    by (simp add: truthy_def hair_def)
  have fill2: \<open>sublist ''fill="url(#dots)"''
        (segmentPath exampleBrowser (face \<lparr> ditherPattern := Some ''dots'' \<rparr>))\<close>
    using pattern_fill_in_segmentPath[of "face \<lparr> ditherPattern := Some ''dots'' \<rparr>" exampleBrowser]
    by (simp add: truthy_def)
  show ?thesis
    by (intro conjI ids tiles differ twice fill1 fill2)
qed

section \<open>The fallback fill\<close>

lemma solid_fill_in_segmentPath:
  assumes "\<not> truthy (ditherPattern s)"
  shows \<open>sublist ''fill="url(#solid)"'' (segmentPath env s)\<close>
  unfolding segmentPath_solid[OF assms]
  apply (simp only: append_Cons append_Nil append_assoc)
  apply ((rule prefix_imp_sublist, (simp; fail)) | rule sublist_skip_char | rule sublist_skip_part)+
  done

text \<open>
  C10.  A segment without a pattern is printed with \<^verbatim>\<open>fill="url(#solid)"\<close>: its group is
  the text below, and in all mode the group of every segment of the list stands in the
  exported text.  The tile definitions are those of the segments that have a pattern
  and of no others: the list of definitions is the one computed from those segments
  alone and has one entry for each of them.  In particular, for plain segment data, the
  exported text defines \<^verbatim>\<open>solid\<close> once per segment whose pattern is \<^verbatim>\<open>solid\<close> and not
  for a segment that merely falls back to it.
\<close>

theorem solid_fallback:
  \<open>(\<not> truthy (ditherPattern s) \<longrightarrow>
      segmentPath env s =
       ''\<newline>'' @
       ''          <g color="'' @ getSegmentColor (seg_id s) @ ''">\<newline>'' @
       ''            <path \<newline>'' @
       ''              d="'' @ orElse (svgPath s) (pathFromMask env (seg_mask s)) @ ''" \<newline>'' @
       ''              fill="url(#solid)" \<newline>'' @
       ''              stroke="'' @ getSegmentColor (seg_id s) @ ''" \<newline>'' @
       ''              stroke-width="2"\<newline>'' @
       ''              data-segment="'' @ seg_id s @ ''"\<newline>'' @
       ''            />\<newline>'' @
       ''          </g>\<newline>'' @
       ''        ''
      \<and> sublist ''fill="url(#solid)"'' (segmentPath env s))
   \<and> (s \<in> set segs \<longrightarrow> sublist (segmentPath env s) (generateSVG env dims segs True))
   \<and> patternDefList (numberToString env) dims segs =
       patternDefList (numberToString env) dims (filter (\<lambda>s. truthy (ditherPattern s)) segs)
   \<and> length (patternDefList (numberToString env) dims segs) =
       length (filter (\<lambda>s. truthy (ditherPattern s)) segs)
   \<and> (plainInput env segs \<longrightarrow>
        occurrences ''<pattern '' (generateSVG env dims segs True) =
          length (filter (\<lambda>s. truthy (ditherPattern s)) segs)
      \<and> occurrences ''<pattern id="solid"'' (generateSVG env dims segs True) =
          length (filter (\<lambda>s. ditherPattern s = Some ''solid'') segs))\<close>
proof -
  have solid: \<open>occurrences ''<pattern id="solid"'' (generateSVG env dims segs True) =
          length (filter (\<lambda>s. ditherPattern s = Some ''solid'') segs)\<close>
    if inp: "plainInput env segs"
  proof -
    have p: "plain ''solid''" by (simp add: plain_def)
    have "(\<lambda>s. truthy (ditherPattern s) \<and> ditherPattern s = Some ''solid'') =
        (\<lambda>s::ImageSegment. ditherPattern s = Some ''solid'')"
      by (auto simp: truthy_def fun_eq_iff)
    then show ?thesis
      using occ_patternId_generateSVG[OF inp p, of dims True] by simp
  qed
  show ?thesis
    using segmentPath_solid[of s env] solid_fill_in_segmentPath[of s env]
      segmentPath_in_generateSVG[of s segs True env dims]
      occ_pattern_generateSVG[of env segs dims True] solid
    by (simp add: patternDefList_def)
qed

text \<open>
  In all mode \<open>body\<close>, which has no pattern, is filled with \<^verbatim>\<open>url(#solid)\<close>, while the
  text defines two tiles, neither of them \<^verbatim>\<open>solid\<close>.
\<close>

theorem solid_fallback_witness:
  \<open>\<not> truthy (ditherPattern body) \<and> body \<in> set [hair, face, body]
   \<and> plainInput exampleBrowser [hair, face, body]
   \<and> sublist ''fill="url(#solid)"'' (segmentPath exampleBrowser body)
   \<and> sublist (segmentPath exampleBrowser body)
        (generateSVG exampleBrowser exampleDimensions [hair, face, body] True)
   \<and> occurrences ''<pattern id="solid"''
        (generateSVG exampleBrowser exampleDimensions [hair, face, body] True) = 0
   \<and> occurrences ''<pattern ''
        (generateSVG exampleBrowser exampleDimensions [hair, face, body] True) = 2\<close>
proof -
  have nb: "\<not> truthy (ditherPattern body)" by (simp add: truthy_def body_def)
  have mem: "body \<in> set [hair, face, body]" by simp
  note th = solid_fallback[of body exampleBrowser "[hair, face, body]"
      exampleDimensions]
  have c1: \<open>sublist ''fill="url(#solid)"'' (segmentPath exampleBrowser body)\<close>
    using th[THEN conjunct1] nb by blast
  have c2: "sublist (segmentPath exampleBrowser body)
        (generateSVG exampleBrowser exampleDimensions [hair, face, body] True)"
    using th[THEN conjunct2, THEN conjunct1] mem by blast
  have counts: \<open>occurrences ''<pattern '' (generateSVG exampleBrowser exampleDimensions [hair, face, body] True) =
          length (filter (\<lambda>s. truthy (ditherPattern s)) [hair, face, body])
      \<and> occurrences ''<pattern id="solid"'' (generateSVG exampleBrowser exampleDimensions [hair, face, body] True) =
          length (filter (\<lambda>s. ditherPattern s = Some ''solid'') [hair, face, body])\<close>
    using th[THEN conjunct2, THEN conjunct2, THEN conjunct2, THEN conjunct2] plainInput_examples
    by blast
  have c3: \<open>occurrences ''<pattern id="solid"''
        (generateSVG exampleBrowser exampleDimensions [hair, face, body] True) = 0\<close>
    using counts[THEN conjunct2] by (simp add: hair_def face_def body_def)
  have c4: \<open>occurrences ''<pattern ''
        (generateSVG exampleBrowser exampleDimensions [hair, face, body] True) = 2\<close>
    using counts[THEN conjunct1] by (simp add: truthy_def hair_def face_def body_def)
  show ?thesis
    by (intro conjI nb mem plainInput_examples c1 c2 c3 c4)
qed

section \<open>The exported text does not depend on the browser\<close>

lemma segmentPath_stored_path:
  assumes "truthy (svgPath s)"
  shows "segmentPath env1 s = segmentPath env2 s"
  by (simp add: segmentPath_def Let_def truthy_orElse[OF assms])

text \<open>
  C9.  In the model \<open>generateSVG\<close> is a function of the browser, the dimensions, the
  segment list and the mode, so two runs on the same arguments return the same text.
  The theorem says more.  A stored path is present when it is a non-empty string, which
  is the test the code makes.  When every segment has one, the exported text is also the
  same in any two browsers that print numbers alike: nothing is read from the mask
  images, whose decoding is the only thing the export asks of the browser.
\<close>

theorem generateSVG_deterministic:
  assumes "\<forall>s \<in> set segs. truthy (svgPath s)"
    and "numberToString env1 = numberToString env2"
  shows "generateSVG env1 dims segs includeAll = generateSVG env2 dims segs includeAll"
proof -
  have "segmentPaths env1 segs includeAll = segmentPaths env2 segs includeAll"
    unfolding segmentPaths_def
    using assms(1) by (intro map_cong refl segmentPath_stored_path) auto
  then show ?thesis
    using assms(2) by (simp add: generateSVG_def)
qed

text \<open>
  Two browsers that decode masks differently export the same text for \<open>hair\<close> and \<open>face\<close>,
  whose paths are stored.
\<close>

theorem generateSVG_deterministic_witness:
  "list_all (\<lambda>s. truthy (svgPath s)) [hair, face]
   \<and> pathFromMask exampleBrowser ''m'' \<noteq>
       pathFromMask (exampleBrowser \<lparr> overlayCanvas := None, polygonMask := None,
                                     pathFromMask := (\<lambda>m. ''M1,1 L2,2 Z'') \<rparr>) ''m''
   \<and> generateSVG exampleBrowser exampleDimensions [hair, face] True =
     generateSVG (exampleBrowser \<lparr> overlayCanvas := None, polygonMask := None,
                                  pathFromMask := (\<lambda>m. ''M1,1 L2,2 Z'') \<rparr>)
       exampleDimensions [hair, face] True"
proof -
  let ?other = "exampleBrowser \<lparr> overlayCanvas := None, polygonMask := None,
                                 pathFromMask := (\<lambda>m. ''M1,1 L2,2 Z'') \<rparr>"
  have stored: "\<forall>s \<in> set [hair, face]. truthy (svgPath s)"
    by (simp add: truthy_def hair_def face_def)
  have num: "numberToString exampleBrowser = numberToString ?other" by simp
  have differ: "pathFromMask exampleBrowser ''m'' \<noteq> pathFromMask ?other ''m''"
    by (simp add: exampleBrowser_def)
  from generateSVG_deterministic[OF stored num, of exampleDimensions True]
    stored differ
  show ?thesis by (simp add: list_all_iff)
qed

end
